theory Spec2Isabelle
  imports Main "HOL-Library.Monad_Syntax"
begin

section \<open>SBITS: the page-structured store of \<^verbatim>\<open>src/sbits/sbits.c\<close>\<close>

text \<open>
  The development embeds the storage engine of \<^verbatim>\<open>src/src/sbits/sbits.c\<close>:
  \<^verbatim>\<open>sbitsInit\<close>, \<^verbatim>\<open>sbitsPut\<close>, \<^verbatim>\<open>sbitsPutVar\<close>, \<^verbatim>\<open>sbitsFlush\<close>,
  \<^verbatim>\<open>sbitsGet\<close>, \<^verbatim>\<open>sbitsGetVar\<close> and the page readers and writers under them.

  Conventions of the embedding.
  \<^item> The C state \<^verbatim>\<open>sbitsState\<close> is a record; every function takes the state and returns
    the new one together with its C return value.
  \<^item> A result of type \<open>option\<close> is \<open>None\<close> where the C program has no defined result:
    an integer division or remainder by zero, a read of the record before the first one
    of a page, or a loop that makes no progress.
  \<^item> The header \<^verbatim>\<open>sbits.h\<close> (field widths, the page accessor macros, the parameter
    flags) and the spline module are not among the sources. Fields are natural numbers
    (the arithmetic on them is the mathematical one); a key, a data value or a bitmap is
    the unsigned number its bytes encode; the page accessors follow the page layout of
    the specification; the spline is the list of points handed to it and its query is a
    parameter.
  \<^item> What the C code computes in floating point (\<^verbatim>\<open>getMaxError\<close>,
    \<^verbatim>\<open>sbitsEstimateKeyLocation\<close>) is a parameter, too: record \<open>ext\<close>.
\<close>

subsection \<open>C arithmetic\<close>

definition UINT32_MAX :: nat where
  "UINT32_MAX = 4294967295"

definition SBITS_NO_VAR_DATA :: nat where
  "SBITS_NO_VAR_DATA = 4294967295"

text \<open>The value \<^verbatim>\<open>-1\<close> returned through the unsigned type \<^verbatim>\<open>id_t\<close>.\<close>

definition ID_MINUS_ONE :: nat where
  "ID_MINUS_ONE = 4294967295"

text \<open>C division of signed integers truncates towards zero.\<close>

definition cdiv :: "int \<Rightarrow> int \<Rightarrow> int" where
  "cdiv a b = (if (a < 0) = (b < 0) then \<bar>a\<bar> div \<bar>b\<bar> else - (\<bar>a\<bar> div \<bar>b\<bar>))"

text \<open>Conversion of an \<^verbatim>\<open>id_t\<close> (32 bits, unsigned) to \<^verbatim>\<open>int32_t\<close>.\<close>

definition to_int32 :: "nat \<Rightarrow> int" where
  "to_int32 n = (if n mod 4294967296 < 2147483648 then int (n mod 4294967296)
                 else int (n mod 4294967296) - 4294967296)"

text \<open>Conversion of an \<^verbatim>\<open>int32_t\<close> to \<^verbatim>\<open>id_t\<close>.\<close>

definition to_id :: "int \<Rightarrow> nat" where
  "to_id i = nat (i mod 4294967296)"

text \<open>
  \<^verbatim>\<open>memcpy(&field, src, n)\<close> into an integer field on a little-endian machine: the low
  \<open>n\<close> bytes of the field are replaced, the others stay.
\<close>

definition memcpy_low :: "nat \<Rightarrow> nat \<Rightarrow> nat \<Rightarrow> nat" where
  "memcpy_low old n v = (old div 256 ^ n) * 256 ^ n + v mod 256 ^ n"

text \<open>The number whose \<open>n\<close> bytes are all \<^verbatim>\<open>0x01\<close>.\<close>

primrec ones :: "nat \<Rightarrow> nat" where
  "ones 0 = 0"
| "ones (Suc n) = 1 + 256 * ones n"

subsection \<open>Pages\<close>

text \<open>A fixed-size record of a data page: key, data and, with variable data, the 4-byte
  offset of its blob.\<close>

record slot_rec =
  r_key :: nat
  r_data :: nat
  r_var :: nat

definition zero_rec :: slot_rec where
  "zero_rec = \<lparr>r_key = 0, r_data = 0, r_var = 0\<rparr>"

text \<open>
  Modelled from the spec: the accessors of a data page (macros of \<^verbatim>\<open>sbits.h\<close>). A data
  page is: logical page id, record count, bitmap, the minima and maxima of key and data,
  then the record slots.
\<close>

record page =
  pg_id :: nat
  pg_count :: nat
  pg_bitmap :: nat
  pg_minKey :: nat
  pg_maxKey :: nat
  pg_minData :: nat
  pg_maxData :: nat
  pg_recs :: "nat \<Rightarrow> slot_rec"

text \<open>
  Modelled from the spec: an index page is logical id, count, the id of the first data
  page it summarises (bytes 8 to 11) and one bitmap per summarised data page.
\<close>

record idxpage =
  ip_id :: nat
  ip_count :: nat
  ip_minPage :: nat
  ip_bitmaps :: "nat \<Rightarrow> nat"

text \<open>A page of the variable-data file is raw bytes: offset to byte.\<close>

type_synonym varpage = "nat \<Rightarrow> nat"

text \<open>Writing and reading a little-endian number of \<open>n\<close> bytes at an offset.\<close>

definition put_le :: "varpage \<Rightarrow> nat \<Rightarrow> nat \<Rightarrow> nat \<Rightarrow> varpage" where
  "put_le buf off n v =
     (\<lambda>i. if off \<le> i \<and> i < off + n then (v div 256 ^ (i - off)) mod 256 else buf i)"

primrec get_le :: "varpage \<Rightarrow> nat \<Rightarrow> nat \<Rightarrow> nat" where
  "get_le buf off 0 = 0"
| "get_le buf off (Suc n) = buf off mod 256 + 256 * get_le buf (Suc off) n"

text \<open>\<^verbatim>\<open>memcpy(buf + off, src + from, n)\<close> between byte arrays.\<close>

definition copy_bytes :: "varpage \<Rightarrow> nat \<Rightarrow> (nat \<Rightarrow> nat) \<Rightarrow> nat \<Rightarrow> nat \<Rightarrow> varpage" where
  "copy_bytes buf off src from n =
     (\<lambda>i. if off \<le> i \<and> i < off + n then src (from + (i - off)) else buf i)"

subsection \<open>The state\<close>

record sbitsState =
  keySize :: nat
  dataSize :: nat
  pageSize :: nat
  bitmapSize :: nat
  recordSize :: nat
  headerSize :: nat
  bufferSizeInBlocks :: nat
  eraseSizeInPages :: nat
  startAddress :: nat
  endAddress :: nat
  varAddressStart :: nat
  varAddressEnd :: nat
  maxRecordsPerPage :: nat
  maxIdxRecordsPerPage :: nat
  indexMaxError :: nat
  usingIndex :: bool
  usingMaxMin :: bool
  usingBmap :: bool
  usingVData :: bool
  compareKey :: "nat \<Rightarrow> nat \<Rightarrow> int"
  compareData :: "nat \<Rightarrow> nat \<Rightarrow> int"
  updateBitmap :: "nat \<Rightarrow> nat \<Rightarrow> nat"
  dataFile :: "(nat \<rightharpoonup> page) option"
  startDataPage :: nat
  endDataPage :: nat
  firstDataPage :: nat
  firstDataPageId :: nat
  erasedEndPage :: nat
  nextPageId :: nat
  nextPageWriteId :: nat
  wrappedMemory :: nat
  minKey :: nat
  avgKeyDiff :: nat
  maxError :: int
  bufferedPageId :: int
  indexFile :: "(nat \<rightharpoonup> idxpage) option"
  startIdxPage :: nat
  endIdxPage :: nat
  firstIdxPage :: nat
  erasedEndIdxPage :: nat
  nextIdxPageId :: nat
  nextIdxPageWriteId :: nat
  wrappedIdxMemory :: nat
  bufferedIndexPageId :: int
  varFile :: "(nat \<rightharpoonup> varpage) option"
  currentVarLoc :: nat
  minVarRecordId :: nat
  numVarPages :: nat
  numAvailVarPages :: int
  nextVarPageId :: nat
  wrappedVariableMemory :: nat
  recordHasVarData :: nat
  bufferedVarPage :: int
  wbuf :: page
  rbuf :: page
  idxwbuf :: idxpage
  varwbuf :: varpage
  varrbuf :: varpage
  numReads :: nat
  numWrites :: nat
  bufferHits :: nat
  numIdxReads :: nat
  numIdxWrites :: nat
  spl :: "(nat \<times> nat) list"

text \<open>
  The buffer \<^verbatim>\<open>state->buffer\<close> is cut into page-sized slots: \<open>wbuf\<close> is slot 0 (data
  write), \<open>rbuf\<close> slot 1 (data read), \<open>idxwbuf\<close> slot 2 (index write), \<open>varwbuf\<close> and
  \<open>varrbuf\<close> the two variable-data slots. Field \<open>dataFile\<close> is \<^verbatim>\<open>state->file\<close>: \<open>None\<close>
  is the \<^verbatim>\<open>NULL\<close> handle, otherwise the pages on the device by physical page number.
  Field \<open>spl\<close> is the list of points \<^verbatim>\<open>(key, page)\<close> given to \<^verbatim>\<open>splineAdd\<close>, oldest first.
\<close>

text \<open>What is computed outside the embedded code.\<close>

record ext =
  splineFind :: "(nat \<times> nat) list \<Rightarrow> nat \<Rightarrow> nat \<times> nat \<times> nat"
  getMaxError :: "sbitsState \<Rightarrow> page \<Rightarrow> int"
  sbitsEstimateKeyLocation :: "sbitsState \<Rightarrow> page \<Rightarrow> nat \<Rightarrow> int"

subsection \<open>Page buffers\<close>

datatype buffer_slot = DATA_WRITE_BUFFER | INDEX_WRITE_BUFFER | VAR_WRITE_BUFFER

text \<open>
  \<^verbatim>\<open>initBufferPage\<close>: the page is zeroed; unless it is the variable-data page, the
  minimum key and the minimum data of the header are set to bytes \<^verbatim>\<open>0x01\<close>.
  Modelled from the spec: where these header fields lie (macros of \<^verbatim>\<open>sbits.h\<close>); an
  index page has no such fields among those the model reads.
\<close>

definition init_page :: "sbitsState \<Rightarrow> page" where
  "init_page s = \<lparr>pg_id = 0, pg_count = 0, pg_bitmap = 0,
      pg_minKey = ones (keySize s), pg_maxKey = 0,
      pg_minData = ones (dataSize s), pg_maxData = 0,
      pg_recs = (\<lambda>_. zero_rec)\<rparr>"

definition init_idxpage :: idxpage where
  "init_idxpage = \<lparr>ip_id = 0, ip_count = 0, ip_minPage = 0, ip_bitmaps = (\<lambda>_. 0)\<rparr>"

fun initBufferPage :: "sbitsState \<Rightarrow> buffer_slot \<Rightarrow> sbitsState" where
  "initBufferPage s DATA_WRITE_BUFFER = s\<lparr>wbuf := init_page s\<rparr>"
| "initBufferPage s INDEX_WRITE_BUFFER = s\<lparr>idxwbuf := init_idxpage\<rparr>"
| "initBufferPage s VAR_WRITE_BUFFER = s\<lparr>varwbuf := (\<lambda>_. 0)\<rparr>"

text \<open>\<^verbatim>\<open>sbitsGetMinKey\<close>: the key of the first record slot.\<close>

definition sbitsGetMinKey :: "page \<Rightarrow> nat" where
  "sbitsGetMinKey p = r_key (pg_recs p 0)"

text \<open>\<^verbatim>\<open>sbitsGetMaxKey\<close>: the key of record \<^verbatim>\<open>count - 1\<close>. With a count of zero the C
  code reads the bytes before the first record; the model has no value for them.\<close>

definition sbitsGetMaxKey :: "page \<Rightarrow> nat option" where
  "sbitsGetMaxKey p =
     (if pg_count p = 0 then None else Some (r_key (pg_recs p (pg_count p - 1))))"

subsection \<open>Writing pages\<close>

text \<open>\<^verbatim>\<open>writePage\<close>, lines 1598 to 1614: erasing ahead of the writer.\<close>

definition writePage_erase :: "sbitsState \<Rightarrow> sbitsState" where
  "writePage_erase s =
     (if nextPageWriteId s \<ge> erasedEndPage s
         \<and> nextPageWriteId s + eraseSizeInPages s < endDataPage s then
        let s1 = (if erasedEndPage s \<noteq> 0
                  then s\<lparr>erasedEndPage := erasedEndPage s + eraseSizeInPages s\<rparr>
                  else s\<lparr>erasedEndPage := erasedEndPage s + eraseSizeInPages s - 1\<rparr>)
        in if wrappedMemory s1 \<noteq> 0 then
             s1\<lparr>firstDataPage := erasedEndPage s1 + 1,
                firstDataPageId := firstDataPageId s1 + eraseSizeInPages s1,
                minKey := minKey s1
                   + eraseSizeInPages s1 * avgKeyDiff s1 * maxRecordsPerPage s1\<rparr>
           else s1
      else s)"

text \<open>\<^verbatim>\<open>writePage\<close>, lines 1616 to 1633: the data storage is full, wrap to its start.\<close>

definition writePage_wrap :: "sbitsState \<Rightarrow> sbitsState" where
  "writePage_wrap s =
     (if nextPageWriteId s \<ge> endDataPage s then
        let s1 = s\<lparr>firstDataPageId := firstDataPageId s + eraseSizeInPages s\<rparr>;
            s2 = s1\<lparr>erasedEndPage := startDataPage s1 + eraseSizeInPages s1 - 1\<rparr>;
            s3 = s2\<lparr>firstDataPage := erasedEndPage s2 + 1\<rparr>;
            s4 = s3\<lparr>wrappedMemory := 1\<rparr>;
            s5 = s4\<lparr>nextPageWriteId := startDataPage s4\<rparr>
        in s5\<lparr>minKey := minKey s5
                  + eraseSizeInPages s5 * avgKeyDiff s5 * maxRecordsPerPage s5\<rparr>
      else s)"

text \<open>\<^verbatim>\<open>writePage\<close>, always called on the data write buffer (slot 0). Returns the
  logical page number, or \<^verbatim>\<open>-1\<close> when there is no file. The page number is stamped
  into the buffer (lines 1593 to 1596), the two blocks above run, the page is written at
  \<^verbatim>\<open>nextPageWriteId\<close> (lines 1635 to 1640).\<close>

definition writePage_store :: "sbitsState \<Rightarrow> (nat \<rightharpoonup> page) \<Rightarrow> sbitsState" where
  "writePage_store s f =
     (let s1 = s\<lparr>dataFile := Some (f(nextPageWriteId s \<mapsto> wbuf s))\<rparr>
      in s1\<lparr>nextPageWriteId := nextPageWriteId s1 + 1, numWrites := numWrites s1 + 1\<rparr>)"

definition writePage_stamp :: "sbitsState \<Rightarrow> sbitsState" where
  "writePage_stamp s =
     (let pageNum = nextPageId s;
          s1 = s\<lparr>nextPageId := nextPageId s + 1\<rparr>
      in s1\<lparr>wbuf := (wbuf s1)\<lparr>pg_id := pageNum\<rparr>\<rparr>)"

definition writePage :: "sbitsState \<Rightarrow> sbitsState \<times> nat" where
  "writePage s =
     (case dataFile s of
        None \<Rightarrow> (s, ID_MINUS_ONE)
      | Some f \<Rightarrow>
          (writePage_store (writePage_wrap (writePage_erase (writePage_stamp s))) f,
           nextPageId s))"

text \<open>\<^verbatim>\<open>writeIndexPage\<close>, lines 1661 to 1675: erasing ahead of the index writer.\<close>

definition writeIndexPage_erase :: "sbitsState \<Rightarrow> sbitsState" where
  "writeIndexPage_erase s =
     (if nextIdxPageWriteId s \<ge> erasedEndIdxPage s
         \<and> nextIdxPageWriteId s + eraseSizeInPages s < endIdxPage s - startIdxPage s + 1 then
        let s1 = (if erasedEndIdxPage s \<noteq> 0
                  then s\<lparr>erasedEndIdxPage := erasedEndIdxPage s + eraseSizeInPages s\<rparr>
                  else s\<lparr>erasedEndIdxPage := erasedEndIdxPage s + eraseSizeInPages s - 1\<rparr>)
        in if wrappedIdxMemory s1 \<noteq> 0
           then s1\<lparr>firstIdxPage := erasedEndIdxPage s1 + 1\<rparr> else s1
      else s)"

text \<open>\<^verbatim>\<open>writeIndexPage\<close>, lines 1677 to 1692: the index storage is full.\<close>

definition writeIndexPage_wrap :: "sbitsState \<Rightarrow> sbitsState" where
  "writeIndexPage_wrap s =
     (if nextIdxPageWriteId s \<ge> endIdxPage s - startIdxPage s + 1 then
        let s1 = s\<lparr>erasedEndIdxPage := 0 + eraseSizeInPages s - 1\<rparr>;
            s2 = s1\<lparr>firstIdxPage := erasedEndIdxPage s1 + 1\<rparr>;
            s3 = s2\<lparr>wrappedIdxMemory := 1\<rparr>
        in s3\<lparr>nextIdxPageWriteId := 0\<rparr>
      else s)"

text \<open>\<^verbatim>\<open>writeIndexPage\<close>, always called on the index write buffer (slot 2).\<close>

definition writeIndexPage_store :: "sbitsState \<Rightarrow> (nat \<rightharpoonup> idxpage) \<Rightarrow> sbitsState" where
  "writeIndexPage_store s f =
     (let s1 = s\<lparr>indexFile := Some (f(nextIdxPageWriteId s \<mapsto> idxwbuf s))\<rparr>
      in s1\<lparr>nextIdxPageWriteId := nextIdxPageWriteId s1 + 1,
             numIdxWrites := numIdxWrites s1 + 1\<rparr>)"

definition writeIndexPage :: "sbitsState \<Rightarrow> sbitsState \<times> nat" where
  "writeIndexPage s =
     (case indexFile s of
        None \<Rightarrow> (s, ID_MINUS_ONE)
      | Some f \<Rightarrow>
          let pageNum = nextIdxPageId s;
              s1 = s\<lparr>nextIdxPageId := nextIdxPageId s + 1\<rparr>;
              s2 = s1\<lparr>idxwbuf := (idxwbuf s1)\<lparr>ip_id := pageNum\<rparr>\<rparr>
          in (writeIndexPage_store (writeIndexPage_wrap (writeIndexPage_erase s2)) f,
              pageNum))"

text \<open>\<^verbatim>\<open>readVariablePage\<close>: a page already in the read slot is not read again.\<close>

definition readVariablePage :: "sbitsState \<Rightarrow> nat \<Rightarrow> sbitsState \<times> int" where
  "readVariablePage s pageNum =
     (if int pageNum = bufferedVarPage s then (s\<lparr>bufferHits := bufferHits s + 1\<rparr>, 0)
      else case varFile s of
             None \<Rightarrow> (s, -1)
           | Some f \<Rightarrow>
               (case f pageNum of
                  None \<Rightarrow> (s, -1)
                | Some p \<Rightarrow> (s\<lparr>varrbuf := p, numReads := numReads s + 1,
                               bufferedVarPage := int pageNum\<rparr>, 0)))"

text \<open>\<^verbatim>\<open>writeVariablePage\<close>, always called on the variable-data write buffer. When no
  page is free, one erase block is reclaimed: the last page of the block is read and the
  key in its header, plus one, becomes \<^verbatim>\<open>minVarRecordId\<close>.\<close>

definition writeVariablePage_store :: "sbitsState \<Rightarrow> (nat \<rightharpoonup> varpage) \<Rightarrow> sbitsState \<times> nat" where
  "writeVariablePage_store s f =
     (let s1 = s\<lparr>varFile := Some (f(nextVarPageId s \<mapsto> varwbuf s))\<rparr>;
          s2 = s1\<lparr>nextVarPageId := nextVarPageId s1 + 1,
                  numAvailVarPages := numAvailVarPages s1 - 1,
                  numWrites := numWrites s1 + 1\<rparr>
      in (s2, to_id (int (nextIdxPageId s2) - 1)))"

definition writeVariablePage :: "sbitsState \<Rightarrow> (sbitsState \<times> nat) option" where
  "writeVariablePage s =
     (case varFile s of
        None \<Rightarrow> Some (s, ID_MINUS_ONE)
      | Some f \<Rightarrow>
          if numVarPages s = 0 then None
          else
            let s1 = s\<lparr>nextVarPageId := nextVarPageId s mod numVarPages s\<rparr> in
            if numAvailVarPages s1 \<le> 0 then
              let s2 = s1\<lparr>numAvailVarPages :=
                             numAvailVarPages s1 + int (eraseSizeInPages s1)\<rparr>;
                  pageNum = to_id (int (nextVarPageId s2) + int (eraseSizeInPages s2) - 1)
                              mod numVarPages s2;
                  (s3, r) = readVariablePage s2 pageNum
              in if r \<noteq> 0 then Some (s3, ID_MINUS_ONE)
                 else
                   let s4 = s3\<lparr>minVarRecordId :=
                                  memcpy_low (minVarRecordId s3) (keySize s3)
                                    (get_le (varrbuf s3) 0 (keySize s3))\<rparr>;
                       s5 = s4\<lparr>minVarRecordId := minVarRecordId s4 + 1\<rparr>
                   in Some (writeVariablePage_store s5 f)
            else Some (writeVariablePage_store s1 f))"

subsection \<open>Inserting records\<close>

text \<open>\<^verbatim>\<open>indexPage\<close>: with search method 2 and no radix table, the smallest key of the
  write buffer and the page number are handed to \<^verbatim>\<open>splineAdd\<close>.\<close>

definition indexPage :: "sbitsState \<Rightarrow> nat \<Rightarrow> sbitsState" where
  "indexPage s pageNumber = s\<lparr>spl := spl s @ [(sbitsGetMinKey (wbuf s), pageNumber)]\<rparr>"

text \<open>
  \<^verbatim>\<open>updateAverageKeyDifference\<close>. The difference \<^verbatim>\<open>maxKey - state->minKey\<close> and the two
  divisions are unsigned 64-bit operations (\<^verbatim>\<open>minKey\<close> receives up to eight key bytes);
  \<^verbatim>\<open>numBlocks\<close> is an \<^verbatim>\<open>int32_t\<close>.
\<close>

definition updateAverageKeyDifference :: "sbitsState \<Rightarrow> page \<Rightarrow> sbitsState option" where
  "updateAverageKeyDifference s buffer =
     (let numBlocks0 =
            (if nextPageWriteId s < firstDataPage s
             then to_int32 (to_id (int (endDataPage s) - int (firstDataPage s) + 1
                                     + int (nextIdxPageWriteId s)))
             else to_int32 (to_id (int (nextPageWriteId s) - 1)));
          numBlocks = (if numBlocks0 = 0 then 1 else numBlocks0)
      in case sbitsGetMaxKey buffer of
           None \<Rightarrow> None
         | Some maxKey \<Rightarrow>
             if maxRecordsPerPage s = 0 then None
             else Some (s\<lparr>avgKeyDiff :=
                     nat ((int maxKey - int (minKey s)) mod 18446744073709551616)
                       div nat (numBlocks mod 18446744073709551616)
                       div maxRecordsPerPage s\<rparr>))"

definition updateMaxiumError :: "ext \<Rightarrow> sbitsState \<Rightarrow> page \<Rightarrow> sbitsState" where
  "updateMaxiumError x s buffer =
     (let maxErr = getMaxError x s buffer
      in if maxError s < maxErr then s\<lparr>maxError := maxErr\<rparr> else s)"

text \<open>\<^verbatim>\<open>sbitsPut\<close>, lines 702 to 722: the bitmap of the page just written is appended
  to the index write buffer, which is written out first when it is full.\<close>

definition sbitsPut_index :: "sbitsState \<Rightarrow> nat \<Rightarrow> sbitsState" where
  "sbitsPut_index s pageNum =
     (if indexFile s \<noteq> None then
        let idxcount0 = ip_count (idxwbuf s);
            s1 = (if idxcount0 \<ge> maxIdxRecordsPerPage s then
                    let t1 = initBufferPage (fst (writeIndexPage s)) INDEX_WRITE_BUFFER
                    in t1\<lparr>idxwbuf := (idxwbuf t1)\<lparr>ip_minPage := pageNum\<rparr>\<rparr>
                  else s);
            idxcount = (if idxcount0 \<ge> maxIdxRecordsPerPage s then 0 else idxcount0);
            s2 = s1\<lparr>idxwbuf := (idxwbuf s1)\<lparr>ip_count := ip_count (idxwbuf s1) + 1\<rparr>\<rparr>;
            bm = pg_bitmap (wbuf s2)
        in s2\<lparr>idxwbuf := (idxwbuf s2)
                 \<lparr>ip_bitmaps := (ip_bitmaps (idxwbuf s2))(idxcount := bm)\<rparr>\<rparr>
      else s)"

text \<open>\<^verbatim>\<open>sbitsPut\<close>, lines 695 to 729: the write buffer is full. It is written, indexed
  and initialised again.\<close>

definition sbitsPut_full :: "ext \<Rightarrow> sbitsState \<Rightarrow> sbitsState option" where
  "sbitsPut_full x s =
     (let pageNum = snd (writePage s);
          s1 = fst (writePage s);
          s2 = indexPage s1 pageNum;
          s3 = sbitsPut_index s2 pageNum
      in case updateAverageKeyDifference s3 (wbuf s3) of
           None \<Rightarrow> None
         | Some s4 \<Rightarrow>
             Some (initBufferPage (updateMaxiumError x s4 (wbuf s4)) DATA_WRITE_BUFFER))"

text \<open>\<^verbatim>\<open>sbitsPut\<close>, lines 731 to 747: the record is copied into slot \<open>count\<close> of the
  write buffer and the count of the page goes up by one.\<close>

definition sbitsPut_record :: "sbitsState \<Rightarrow> nat \<Rightarrow> nat \<Rightarrow> nat \<Rightarrow> sbitsState option" where
  "sbitsPut_record s count key data =
     (let slot0 = pg_recs (wbuf s) count;
          slot1 = slot0\<lparr>r_key := key, r_data := data\<rparr>;
          slot2 = (if usingVData s then
                     if recordHasVarData s \<noteq> 0 then
                       if numVarPages s * pageSize s = 0 then None
                       else Some (slot1\<lparr>r_var :=
                              currentVarLoc s mod (numVarPages s * pageSize s)\<rparr>)
                     else Some (slot1\<lparr>r_var := SBITS_NO_VAR_DATA\<rparr>)
                   else Some slot1)
      in case slot2 of
           None \<Rightarrow> None
         | Some slot \<Rightarrow>
             Some (s\<lparr>wbuf := (wbuf s)\<lparr>pg_recs := (pg_recs (wbuf s))(count := slot),
                                       pg_count := pg_count (wbuf s) + 1\<rparr>\<rparr>))"

text \<open>\<^verbatim>\<open>sbitsPut\<close>, lines 749 to 786: the smallest key of the store, the minima and
  maxima of the page header and the bitmap.\<close>

definition sbitsPut_header :: "sbitsState \<Rightarrow> nat \<Rightarrow> nat \<Rightarrow> nat \<Rightarrow> sbitsState" where
  "sbitsPut_header s count key data =
     (let s1 = (if minKey s = UINT32_MAX
                then s\<lparr>minKey := memcpy_low (minKey s) (keySize s) key\<rparr> else s);
          b = wbuf s1;
          s2 = (if usingMaxMin s1 then
                  if count \<noteq> 0 then
                    let b1 = b\<lparr>pg_maxKey := key\<rparr>;
                        b2 = (if compareData s1 data (pg_minData b1) < 0
                              then b1\<lparr>pg_minData := data\<rparr> else b1);
                        b3 = (if compareData s1 data (pg_maxData b2) > 0
                              then b2\<lparr>pg_maxData := data\<rparr> else b2)
                    in s1\<lparr>wbuf := b3\<rparr>
                  else s1\<lparr>wbuf := b\<lparr>pg_minKey := key, pg_maxKey := key,
                                      pg_minData := data, pg_maxData := data\<rparr>\<rparr>
                else s1)
      in if usingBmap s2
         then s2\<lparr>wbuf := (wbuf s2)\<lparr>pg_bitmap := updateBitmap s2 data (pg_bitmap (wbuf s2))\<rparr>\<rparr>
         else s2)"

definition sbitsPut :: "ext \<Rightarrow> sbitsState \<Rightarrow> nat \<Rightarrow> nat \<Rightarrow> (sbitsState \<times> int) option" where
  "sbitsPut x s key data =
     (let count0 = pg_count (wbuf s);
          full = (count0 \<ge> maxRecordsPerPage s);
          count = (if full then 0 else count0)
      in case (if full then sbitsPut_full x s else Some s) of
           None \<Rightarrow> None
         | Some s1 \<Rightarrow>
             (case sbitsPut_record s1 count key data of
                None \<Rightarrow> None
              | Some s2 \<Rightarrow> Some (sbitsPut_header s2 count key data, 0)))"

subsection \<open>Flushing\<close>

text \<open>\<^verbatim>\<open>sbitsFlush\<close>: the data write buffer is written whatever its count, then the index
  write buffer and the variable-data write buffer.\<close>

definition sbitsFlush_index :: "sbitsState \<Rightarrow> sbitsState" where
  "sbitsFlush_index s =
     (if indexFile s \<noteq> None then
        let idxcount = ip_count (idxwbuf s);
            s1 = s\<lparr>idxwbuf := (idxwbuf s)\<lparr>ip_count := ip_count (idxwbuf s) + 1\<rparr>\<rparr>;
            bm = pg_bitmap (wbuf s1);
            s2 = s1\<lparr>idxwbuf := (idxwbuf s1)
                   \<lparr>ip_bitmaps := (ip_bitmaps (idxwbuf s1))(idxcount := bm)\<rparr>\<rparr>
        in initBufferPage (fst (writeIndexPage s2)) INDEX_WRITE_BUFFER
      else s)"

definition sbitsFlush :: "sbitsState \<Rightarrow> (sbitsState \<times> int) option" where
  "sbitsFlush s =
     (let pageNum = snd (writePage s);
          s1 = fst (writePage s);
          s2 = indexPage s1 pageNum;
          s3 = sbitsFlush_index s2;
          s4 = initBufferPage s3 DATA_WRITE_BUFFER
      in if usingVData s4 then
           (case writeVariablePage s4 of
              None \<Rightarrow> None
            | Some r \<Rightarrow> Some (fst r, 0))
         else Some (s4, 0))"

subsection \<open>Inserting records with variable data\<close>

text \<open>\<^verbatim>\<open>sbitsPutVar\<close>, lines 858 to 865 and 877 to 884: the variable-data page is
  full; it is written, initialised again and given the key as its header.\<close>

definition sbitsPutVar_nextPage :: "sbitsState \<Rightarrow> nat \<Rightarrow> sbitsState option" where
  "sbitsPutVar_nextPage s key =
     (case writeVariablePage s of
        None \<Rightarrow> None
      | Some r \<Rightarrow>
          let s1 = initBufferPage (fst r) VAR_WRITE_BUFFER;
              s2 = s1\<lparr>varwbuf := put_le (varwbuf s1) 0 (keySize s1) key\<rparr>
          in Some (s2\<lparr>currentVarLoc := currentVarLoc s2 + keySize s2\<rparr>))"

text \<open>
  \<^verbatim>\<open>sbitsPutVar\<close>, lines 835 to 841: when the four bytes of the length do not fit into
  the rest of the current page, the page is written and the write location moves to the
  next page, past its header of \<^verbatim>\<open>keySize\<close> bytes. The comparison is unsigned: with a
  page of fewer than four bytes its right-hand side is a huge number.
\<close>

definition sbitsPutVar_advance :: "sbitsState \<Rightarrow> sbitsState option" where
  "sbitsPutVar_advance s =
     (if pageSize s = 0 then None
      else if 4 \<le> pageSize s \<and> currentVarLoc s mod pageSize s > pageSize s - 4 then
        (case writeVariablePage s of
           None \<Rightarrow> None
         | Some r \<Rightarrow>
             let s1 = initBufferPage (fst r) VAR_WRITE_BUFFER
             in Some (s1\<lparr>currentVarLoc := currentVarLoc s1
                          + (pageSize s1 - currentVarLoc s1 mod pageSize s1) + keySize s1\<rparr>))
      else Some s)"

text \<open>\<^verbatim>\<open>sbitsPutVar\<close>, lines 867 to 885: the blob is copied into the write buffer, page
  after page.\<close>

function sbitsPutVar_loop ::
    "sbitsState \<Rightarrow> nat \<Rightarrow> (nat \<Rightarrow> nat) \<Rightarrow> nat \<Rightarrow> nat \<Rightarrow> sbitsState option" where
  "sbitsPutVar_loop s key variableData len amtWritten =
     (if len > 0 then
        if pageSize s = 0 then None
        else
          let amtToWrite = min (pageSize s - currentVarLoc s mod pageSize s) len;
              s1 = s\<lparr>varwbuf := copy_bytes (varwbuf s) (currentVarLoc s mod pageSize s)
                                   variableData amtWritten amtToWrite\<rparr>;
              s2 = s1\<lparr>currentVarLoc := currentVarLoc s1 + amtToWrite\<rparr>
          in if currentVarLoc s2 mod pageSize s2 = 0 then
               (case sbitsPutVar_nextPage s2 key of
                  None \<Rightarrow> None
                | Some s3 \<Rightarrow>
                    sbitsPutVar_loop s3 key variableData
                      (len - min (pageSize s - currentVarLoc s mod pageSize s) len)
                      (amtWritten + min (pageSize s - currentVarLoc s mod pageSize s) len))
             else sbitsPutVar_loop s2 key variableData
                    (len - min (pageSize s - currentVarLoc s mod pageSize s) len)
                    (amtWritten + min (pageSize s - currentVarLoc s mod pageSize s) len)
      else Some s)"
  by pat_completeness auto
termination
proof (relation "measure (\<lambda>(s, key, variableData, len, amtWritten). len)")
  show "wf (measure (\<lambda>(s, key, variableData, len, amtWritten). len))"
    by simp
next
  fix s :: sbitsState and key :: nat and variableData :: "nat \<Rightarrow> nat"
    and len amtWritten :: nat
  assume "0 < len" "pageSize s \<noteq> 0"
  then have "0 < min (pageSize s - currentVarLoc s mod pageSize s) len"
    by simp
  then show "\<And>x xa xb x2. ((x2, key, variableData,
        len - min (pageSize s - currentVarLoc s mod pageSize s) len,
        amtWritten + min (pageSize s - currentVarLoc s mod pageSize s) len),
       s, key, variableData, len, amtWritten)
      \<in> measure (\<lambda>(s, key, variableData, len, amtWritten). len)"
    using \<open>0 < len\<close> by simp
  then show "\<And>x xa xb. ((xb, key, variableData,
        len - min (pageSize s - currentVarLoc s mod pageSize s) len,
        amtWritten + min (pageSize s - currentVarLoc s mod pageSize s) len),
       s, key, variableData, len, amtWritten)
      \<in> measure (\<lambda>(s, key, variableData, len, amtWritten). len)"
    by simp
qed

text \<open>\<^verbatim>\<open>sbitsPutVar\<close>, lines 850 to 855: the key goes into the header of the
  variable-data page, the length of the blob is written at the write location, which
  moves on by four bytes.\<close>

definition sbitsPutVar_length :: "sbitsState \<Rightarrow> nat \<Rightarrow> nat \<Rightarrow> sbitsState" where
  "sbitsPutVar_length s key len =
     (let s1 = s\<lparr>varwbuf := put_le (varwbuf s) 0 (keySize s) key\<rparr>;
          s2 = s1\<lparr>varwbuf := put_le (varwbuf s1) (currentVarLoc s1 mod pageSize s1) 4 len\<rparr>
      in s2\<lparr>currentVarLoc := currentVarLoc s2 + 4\<rparr>)"

definition sbitsPutVar ::
    "ext \<Rightarrow> sbitsState \<Rightarrow> nat \<Rightarrow> nat \<Rightarrow> (nat \<Rightarrow> nat) option \<Rightarrow> nat
       \<Rightarrow> (sbitsState \<times> int) option" where
  "sbitsPutVar x s key data variableData len =
     (if usingVData s then
        (case variableData of
           Some blob \<Rightarrow>
             (case sbitsPutVar_advance s of
                None \<Rightarrow> None
              | Some s1 \<Rightarrow>
                  (case sbitsPut x (s1\<lparr>recordHasVarData := 1\<rparr>) key data of
                     None \<Rightarrow> None
                   | Some (s2, r) \<Rightarrow>
                       if r \<noteq> 0 then Some (s2, r)
                       else
                         let s5 = sbitsPutVar_length s2 key len
                         in (case (if currentVarLoc s5 mod pageSize s5 = 0
                                   then sbitsPutVar_nextPage s5 key else Some s5) of
                               None \<Rightarrow> None
                             | Some s6 \<Rightarrow>
                                 (case sbitsPutVar_loop s6 key blob len 0 of
                                    None \<Rightarrow> None
                                  | Some s7 \<Rightarrow> Some (s7, 0)))))
         | None \<Rightarrow> sbitsPut x (s\<lparr>recordHasVarData := 0\<rparr>) key data)
      else Some (s, -1))"

subsection \<open>Reading pages and searching\<close>

text \<open>\<^verbatim>\<open>readPage\<close>: a page already in the read slot is not read again. A page that
  is not on the device makes \<^verbatim>\<open>fread\<close> return 0.\<close>

definition readPage :: "sbitsState \<Rightarrow> nat \<Rightarrow> sbitsState \<times> int" where
  "readPage s pageNum =
     (if int pageNum = bufferedPageId s then (s\<lparr>bufferHits := bufferHits s + 1\<rparr>, 0)
      else case dataFile s of
             None \<Rightarrow> (s, 1)
           | Some f \<Rightarrow>
               (case f pageNum of
                  None \<Rightarrow> (s, 1)
                | Some p \<Rightarrow> (s\<lparr>rbuf := p, numReads := numReads s + 1,
                               bufferedPageId := int pageNum\<rparr>, 0)))"

text \<open>
  One round of the loop of \<^verbatim>\<open>linearSearch\<close>: the logical page \<open>pageId\<close> is consulted.
  The round returns, or goes on with the page below or the page above.
\<close>

datatype ls_result = LS_Return sbitsState int | LS_Lower sbitsState | LS_Higher sbitsState

definition linearSearch_step ::
    "sbitsState \<Rightarrow> nat \<Rightarrow> int \<Rightarrow> int \<Rightarrow> int \<Rightarrow> ls_result option" where
  "linearSearch_step s key pageId low high =
     (if endDataPage s = 0 then None
      else
        let physPageId = to_id pageId mod endDataPage s in
        if pageId > high \<or> pageId < low \<or> low > high then Some (LS_Return s (-1))
        else
          (case readPage s physPageId of
             (s1, r) \<Rightarrow>
               if r \<noteq> 0 then Some (LS_Return s1 (-1))
               else if compareKey s1 key (sbitsGetMinKey (rbuf s1)) < 0
               then Some (LS_Lower s1)
               else
                 (case sbitsGetMaxKey (rbuf s1) of
                    None \<Rightarrow> None
                  | Some maxKey \<Rightarrow>
                      if compareKey s1 key maxKey > 0 then Some (LS_Higher s1)
                      else Some (LS_Return s1 0))))"

function linearSearch ::
    "sbitsState \<Rightarrow> nat \<Rightarrow> int \<Rightarrow> int \<Rightarrow> int \<Rightarrow> (sbitsState \<times> int) option" where
  "linearSearch s key pageId low high =
     (case linearSearch_step s key pageId low high of
        None \<Rightarrow> None
      | Some (LS_Return s1 r) \<Rightarrow> Some (s1, r)
      | Some (LS_Lower s1) \<Rightarrow> linearSearch s1 key (pageId - 1) low (pageId - 1)
      | Some (LS_Higher s1) \<Rightarrow> linearSearch s1 key (pageId + 1) (pageId + 1) high)"
  by pat_completeness auto
termination
  by (relation "measure (\<lambda>(s, key, pageId, low, high). nat (high - low + 1))")
     (auto simp: linearSearch_step_def Let_def split: if_splits prod.splits option.splits)

text \<open>
  The loop of \<^verbatim>\<open>sbitsSearchNode\<close>: a binary search in the records of a page that
  starts at \<open>middle\<close>. The result says whether the key was found, and the last \<open>middle\<close>.
\<close>

function sbitsSearchNode_loop ::
    "sbitsState \<Rightarrow> page \<Rightarrow> nat \<Rightarrow> int \<Rightarrow> int \<Rightarrow> int \<Rightarrow> (bool \<times> int) option" where
  "sbitsSearchNode_loop s buffer key first lastI middle =
     (if first \<le> lastI then
        if middle < 0 then None
        else
          let compare = compareKey s (r_key (pg_recs buffer (nat middle))) key in
          if compare < 0 then
            sbitsSearchNode_loop s buffer key (middle + 1) lastI (cdiv (middle + 1 + lastI) 2)
          else if compare = 0 then Some (True, middle)
          else
            sbitsSearchNode_loop s buffer key first (middle - 1) (cdiv (first + (middle - 1)) 2)
      else Some (False, middle))"
  by pat_completeness auto
termination
proof (relation "measures
    [\<lambda>(s, buffer, key, first, lastI, middle).
        if first \<le> lastI \<and> \<not> (first \<le> middle \<and> middle \<le> lastI) then 1 else 0,
     \<lambda>(s, buffer, key, first, lastI, middle). nat (lastI - first + 1)]")
  have avg: "a \<le> cdiv (a + b) 2 \<and> cdiv (a + b) 2 \<le> b" if "a \<le> b" for a b :: int
    using that by (auto simp: cdiv_def) 
  show "wf (measures
    [\<lambda>(s, buffer, key, first, lastI, middle).
        if first \<le> lastI \<and> \<not> (first \<le> middle \<and> middle \<le> lastI) then 1 else 0,
     \<lambda>(s, buffer, key, first, lastI, middle). nat (lastI - first + 1)])"
    by simp
  fix s :: sbitsState and buffer :: page and key :: nat and first lastI middle :: int
  assume "first \<le> lastI" "\<not> middle < 0"
  show "((s, buffer, key, middle + 1, lastI, cdiv (middle + 1 + lastI) 2),
          s, buffer, key, first, lastI, middle)
        \<in> measures
           [\<lambda>(s, buffer, key, first, lastI, middle).
               if first \<le> lastI \<and> \<not> (first \<le> middle \<and> middle \<le> lastI) then 1 else 0,
            \<lambda>(s, buffer, key, first, lastI, middle). nat (lastI - first + 1)]"
    using avg [of "middle + 1" lastI] \<open>first \<le> lastI\<close> by auto
  show "((s, buffer, key, first, middle - 1, cdiv (first + (middle - 1)) 2),
          s, buffer, key, first, lastI, middle)
        \<in> measures
           [\<lambda>(s, buffer, key, first, lastI, middle).
               if first \<le> lastI \<and> \<not> (first \<le> middle \<and> middle \<le> lastI) then 1 else 0,
            \<lambda>(s, buffer, key, first, lastI, middle). nat (lastI - first + 1)]"
    using avg [of first "middle - 1"] \<open>first \<le> lastI\<close> by auto
qed

text \<open>\<^verbatim>\<open>sbitsSearchNode\<close>: the record number of the key in the page, \<^verbatim>\<open>-1\<close> if the key
  is not there and \<^verbatim>\<open>range\<close> is 0. The first probe is the estimate of the key's location
  when it is a record number of the page other than 0.\<close>

definition sbitsSearchNode ::
    "ext \<Rightarrow> sbitsState \<Rightarrow> page \<Rightarrow> nat \<Rightarrow> int \<Rightarrow> nat option" where
  "sbitsSearchNode x s buffer key rangeQ =
     (let count = int (pg_count buffer);
          middle0 = sbitsEstimateKeyLocation x s buffer key;
          first = 0;
          lastI = count - 1;
          middle1 = (if maxError s = -1 \<or> middle0 \<ge> count \<or> middle0 \<le> 0
                     then cdiv (first + lastI) 2 else middle0);
          middle2 = (if middle1 > lastI then lastI else middle1)
      in case sbitsSearchNode_loop s buffer key first lastI middle2 of
           None \<Rightarrow> None
         | Some (found, middle) \<Rightarrow>
             if found then Some (to_id middle)
             else if rangeQ \<noteq> 0 then Some (to_id middle)
             else Some ID_MINUS_ONE)"

subsection \<open>Looking records up\<close>

text \<open>\<^verbatim>\<open>sbitsGet\<close> with search method 2. The result is the state, the return value and
  the data copied to the caller when the key was found.\<close>

definition sbitsGet ::
    "ext \<Rightarrow> sbitsState \<Rightarrow> nat \<Rightarrow> (sbitsState \<times> int \<times> nat option) option" where
  "sbitsGet x s key =
     (if nextPageId s = 0 \<and> wrappedMemory s = 0 then Some (s, -1, None)
      else
        (case splineFind x (spl s) key of
           (location, lowbound, highbound) \<Rightarrow>
             (case linearSearch s key (to_int32 location) (to_int32 lowbound)
                     (to_int32 highbound) of
                None \<Rightarrow> None
              | Some (s1, r) \<Rightarrow>
                  if r = -1 then Some (s1, -1, None)
                  else
                    (case sbitsSearchNode x s1 (rbuf s1) key 0 of
                       None \<Rightarrow> None
                     | Some nextId \<Rightarrow>
                         if nextId \<noteq> ID_MINUS_ONE
                         then Some (s1, 0, Some (r_data (pg_recs (rbuf s1) nextId)))
                         else Some (s1, -1, None)))))"

text \<open>What \<^verbatim>\<open>sbitsGetVar\<close> leaves in \<^verbatim>\<open>*varData\<close>.\<close>

datatype var_out = VarUnset | VarNull | VarBlob "nat list"

text \<open>\<^verbatim>\<open>sbitsGetVar\<close>, lines 1220 to 1236: the blob is read page after page. Past the
  end of a page the C code has no defined result.\<close>

function sbitsGetVar_loop ::
    "sbitsState \<Rightarrow> nat \<Rightarrow> nat \<Rightarrow> nat \<Rightarrow> nat \<Rightarrow> nat list
       \<Rightarrow> (sbitsState \<times> int \<times> nat list) option" where
  "sbitsGetVar_loop s pageNum bufPos dataLength amtRead acc =
     (if amtRead < dataLength then
        if pageSize s \<le> bufPos \<or> numVarPages s = 0 then None
        else
          let amtToRead = min (dataLength - amtRead) (pageSize s - bufPos);
              acc1 = acc @ map (varrbuf s) [bufPos ..< bufPos + amtToRead]
          in if amtRead + amtToRead \<noteq> dataLength then
               (case readVariablePage s ((pageNum + 1) mod numVarPages s) of
                  (s1, r) \<Rightarrow>
                    if r \<noteq> 0 then Some (s1, -1, acc1)
                    else sbitsGetVar_loop s1 ((pageNum + 1) mod numVarPages s) (keySize s)
                           dataLength
                           (amtRead + min (dataLength - amtRead) (pageSize s - bufPos)) acc1)
             else Some (s, 0, acc1)
      else Some (s, 0, acc))"
  by pat_completeness auto
termination
  by (relation "measure (\<lambda>(s, pageNum, bufPos, dataLength, amtRead, acc).
                  dataLength - amtRead)") auto

text \<open>\<^verbatim>\<open>sbitsGetVar\<close>. The result is the state, the return value, the data, the blob
  and the length of the blob when it was stored to \<^verbatim>\<open>*length\<close>. Without variable data
  in the records the C code reads past the record.\<close>

definition sbitsGetVar ::
    "ext \<Rightarrow> sbitsState \<Rightarrow> nat
       \<Rightarrow> (sbitsState \<times> int \<times> nat option \<times> var_out \<times> nat option) option" where
  "sbitsGetVar x s key =
     (case sbitsGet x s key of
        None \<Rightarrow> None
      | Some (s1, r, data) \<Rightarrow>
          if r \<noteq> 0 then Some (s1, r, data, VarUnset, None)
          else if \<not> usingVData s1 then None
          else
            (case sbitsSearchNode x s1 (rbuf s1) key 0 of
               None \<Rightarrow> None
             | Some recordNum \<Rightarrow>
                 let varDataOffset = r_var (pg_recs (rbuf s1) recordNum) in
                 if varDataOffset = SBITS_NO_VAR_DATA then Some (s1, 0, data, VarNull, None)
                 else if compareKey s1 key (minVarRecordId s1) < 0
                 then Some (s1, 1, data, VarNull, None)
                 else if pageSize s1 = 0 \<or> numVarPages s1 = 0 then None
                 else
                   let pageNum = (varDataOffset div pageSize s1) mod numVarPages s1 in
                   (case readVariablePage s1 pageNum of
                      (s2, r2) \<Rightarrow>
                        if r2 \<noteq> 0 then Some (s2, -1, data, VarUnset, None)
                        else
                          let bufPos = varDataOffset mod pageSize s2;
                              dataLength = get_le (varrbuf s2) bufPos 4
                          in if bufPos + 4 \<ge> pageSize s2 then
                               (case readVariablePage s2 ((pageNum + 1) mod numVarPages s2) of
                                  (s3, r3) \<Rightarrow>
                                    if r3 \<noteq> 0
                                    then Some (s3, -1, data, VarUnset, Some dataLength)
                                    else
                                      (case sbitsGetVar_loop s3
                                              ((pageNum + 1) mod numVarPages s2)
                                              (keySize s3) dataLength 0 [] of
                                         None \<Rightarrow> None
                                       | Some (s4, r4, blob) \<Rightarrow>
                                           Some (s4, r4, data, VarBlob blob, Some dataLength)))
                             else
                               (case sbitsGetVar_loop s2 pageNum (bufPos + 4) dataLength 0 [] of
                                  None \<Rightarrow> None
                                | Some (s4, r4, blob) \<Rightarrow>
                                    Some (s4, r4, data, VarBlob blob, Some dataLength)))))"

subsection \<open>Initialisation\<close>

text \<open>
  \<^verbatim>\<open>sbitsInit\<close> for a store that starts from empty files: the data is reset and every
  \<^verbatim>\<open>fopen\<close> succeeds. The caller has set the sizes, the addresses, the flags and the
  callbacks. Initialisation from files that exist is not embedded.
\<close>

definition sbitsInitData :: "sbitsState \<Rightarrow> sbitsState \<times> int" where
  "sbitsInitData s =
     (s\<lparr>nextPageId := 0, nextPageWriteId := 0, startDataPage := 0,
        endDataPage := endAddress s div pageSize s, firstDataPage := 0,
        firstDataPageId := 0, erasedEndPage := 0, avgKeyDiff := 1,
        dataFile := Some Map.empty\<rparr>, 0)"

definition sbitsInitIndex :: "sbitsState \<Rightarrow> (sbitsState \<times> int) option" where
  "sbitsInitIndex s =
     (if bitmapSize s = 0 then None
      else
        let numPages = (endAddress s - startAddress s) div pageSize s;
            s1 = s\<lparr>maxIdxRecordsPerPage := (pageSize s - 16) div bitmapSize s\<rparr>;
            s2 = initBufferPage s1 INDEX_WRITE_BUFFER;
            s3 = s2\<lparr>idxwbuf := (idxwbuf s2)\<lparr>ip_minPage := nextPageId s2\<rparr>\<rparr>;
            s4 = s3\<lparr>nextIdxPageId := 0, nextIdxPageWriteId := 0\<rparr>;
            numIdxPages = (if numPages div 100 < eraseSizeInPages s4 * 2
                           then eraseSizeInPages s4 * 2
                           else ((numPages div 100) div eraseSizeInPages s4 + 1)
                                  * eraseSizeInPages s4);
            s5 = s4\<lparr>endIdxPage := endDataPage s4\<rparr>;
            s6 = s5\<lparr>endDataPage := endDataPage s5 - numIdxPages\<rparr>;
            s7 = s6\<lparr>startIdxPage := endDataPage s6 + 1, firstIdxPage := 0,
                    erasedEndIdxPage := 0, wrappedIdxMemory := 0\<rparr>
        in Some (s7\<lparr>indexFile := Some Map.empty\<rparr>, 0))"

definition sbitsInitVarData :: "sbitsState \<Rightarrow> sbitsState \<times> int" where
  "sbitsInitVarData s =
     (let s1 = initBufferPage s VAR_WRITE_BUFFER;
          s2 = s1\<lparr>currentVarLoc := keySize s1, minVarRecordId := 0,
                  wrappedVariableMemory := 0,
                  numAvailVarPages :=
                    int ((varAddressEnd s1 - varAddressStart s1) div pageSize s1)\<rparr>;
          s3 = s2\<lparr>numVarPages := nat (numAvailVarPages s2), nextVarPageId := 0\<rparr>
      in (s3\<lparr>varFile := Some Map.empty\<rparr>, 0))"

definition resetStats :: "sbitsState \<Rightarrow> sbitsState" where
  "resetStats s = s\<lparr>numReads := 0, numWrites := 0, bufferHits := 0,
                    numIdxReads := 0, numIdxWrites := 0\<rparr>"

text \<open>\<^verbatim>\<open>sbitsInit\<close>, lines 168 to 210: sizes, flags for values not yet known, the data
  write buffer.\<close>

definition sbitsInit_sizes :: "sbitsState \<Rightarrow> nat \<Rightarrow> sbitsState option" where
  "sbitsInit_sizes s0 indexMaxErr =
     (let s1 = s0\<lparr>recordSize := keySize s0 + dataSize s0 + (if usingVData s0 then 4 else 0)\<rparr>;
          s2 = s1\<lparr>dataFile := None, indexFile := None, varFile := None,
                  wrappedMemory := 0, indexMaxError := indexMaxErr\<rparr>;
          s3 = s2\<lparr>headerSize := 6 + bitmapSize s2
                    + (if usingMaxMin s2 then keySize s2 * 2 + dataSize s2 * 2 else 0)\<rparr>;
          s4 = s3\<lparr>minKey := UINT32_MAX, bufferedPageId := -1,
                  bufferedIndexPageId := -1, bufferedVarPage := -1\<rparr>
      in if recordSize s4 = 0 \<or> pageSize s4 = 0 then None
         else
           let s5 = s4\<lparr>maxRecordsPerPage :=
                         nat (cdiv (int (pageSize s4) - int (headerSize s4))
                                (int (recordSize s4)) mod 65536)\<rparr>;
               s6 = s5\<lparr>maxError := int (maxRecordsPerPage s5)\<rparr>
           in Some (initBufferPage s6 DATA_WRITE_BUFFER))"

text \<open>\<^verbatim>\<open>sbitsInit\<close>, lines 219 to 265: the spline, the data file, the index file and the
  variable-data file.\<close>

definition sbitsInit_files :: "sbitsState \<Rightarrow> (sbitsState \<times> int) option" where
  "sbitsInit_files s7 =
     (let s8 = s7\<lparr>spl := []\<rparr>;
          s9 = fst (sbitsInitData s8)
      in (case (if usingIndex s9 then
                  if bufferSizeInBlocks s9 < 4
                  then Some (s9\<lparr>usingIndex := False\<rparr>, 0)
                  else sbitsInitIndex s9
                else Some (s9, 0)) of
            None \<Rightarrow> None
          | Some (s10, indexInitResult) \<Rightarrow>
              if indexInitResult \<noteq> 0 then Some (s10, indexInitResult)
              else if usingVData s10 then
                if bufferSizeInBlocks s10 < 4 + (if usingIndex s10 then 2 else 0)
                then Some (s10\<lparr>usingVData := False\<rparr>, 0)
                else Some (sbitsInitVarData s10)
              else Some (resetStats s10, 0)))"

definition sbitsInit :: "sbitsState \<Rightarrow> nat \<Rightarrow> (sbitsState \<times> int) option" where
  "sbitsInit s0 indexMaxErr =
     (if keySize s0 > 8 then Some (s0, -1)
      else
        (case sbitsInit_sizes s0 indexMaxErr of
           None \<Rightarrow> None
         | Some s7 \<Rightarrow>
             let numPages = (endAddress s7 - startAddress s7) div pageSize s7
             in if numPages < ((if usingIndex s7 then 1 else 0) * 2 + 2) * eraseSizeInPages s7
                then Some (s7, -1)
                else sbitsInit_files s7))"

subsection \<open>A store to compute with\<close>

text \<open>The comparator of the tests (\<^verbatim>\<open>int32Comparator\<close> of \<^verbatim>\<open>test_sbits.c\<close>): the sign
  of the 32-bit difference.\<close>

definition int32Comparator :: "nat \<Rightarrow> nat \<Rightarrow> int" where
  "int32Comparator a b =
     (let result = to_int32 (to_id (to_int32 a - to_int32 b))
      in if result < 0 then -1 else if result > 0 then 1 else 0)"

definition blank_page :: page where
  "blank_page = \<lparr>pg_id = 0, pg_count = 0, pg_bitmap = 0, pg_minKey = 0, pg_maxKey = 0,
      pg_minData = 0, pg_maxData = 0, pg_recs = (\<lambda>_. zero_rec)\<rparr>"

text \<open>A zeroed \<^verbatim>\<open>sbitsState\<close> with the comparator of the tests.\<close>

definition blank_state :: sbitsState where
  "blank_state = \<lparr>keySize = 0, dataSize = 0, pageSize = 0, bitmapSize = 0, recordSize = 0,
     headerSize = 0, bufferSizeInBlocks = 0, eraseSizeInPages = 0, startAddress = 0,
     endAddress = 0, varAddressStart = 0, varAddressEnd = 0, maxRecordsPerPage = 0,
     maxIdxRecordsPerPage = 0, indexMaxError = 0, usingIndex = False, usingMaxMin = False,
     usingBmap = False, usingVData = False, compareKey = int32Comparator,
     compareData = int32Comparator, updateBitmap = (\<lambda>d bm. bm), dataFile = None,
     startDataPage = 0, endDataPage = 0, firstDataPage = 0, firstDataPageId = 0,
     erasedEndPage = 0, nextPageId = 0, nextPageWriteId = 0, wrappedMemory = 0, minKey = 0,
     avgKeyDiff = 0, maxError = 0, bufferedPageId = 0, indexFile = None, startIdxPage = 0,
     endIdxPage = 0, firstIdxPage = 0, erasedEndIdxPage = 0, nextIdxPageId = 0,
     nextIdxPageWriteId = 0, wrappedIdxMemory = 0, bufferedIndexPageId = 0, varFile = None,
     currentVarLoc = 0, minVarRecordId = 0, numVarPages = 0, numAvailVarPages = 0,
     nextVarPageId = 0, wrappedVariableMemory = 0, recordHasVarData = 0, bufferedVarPage = 0,
     wbuf = blank_page, rbuf = blank_page, idxwbuf = init_idxpage, varwbuf = (\<lambda>_. 0),
     varrbuf = (\<lambda>_. 0), numReads = 0, numWrites = 0, bufferHits = 0, numIdxReads = 0,
     numIdxWrites = 0, spl = []\<rparr>"

text \<open>Keys and data of 4 bytes, pages of 22 bytes (two records each), three pages of
  data, erase blocks of one page.\<close>

definition small_params :: sbitsState where
  "small_params = blank_state\<lparr>keySize := 4, dataSize := 4, pageSize := 22,
     bufferSizeInBlocks := 2, eraseSizeInPages := 1, endAddress := 66\<rparr>"

definition small_store :: sbitsState where
  "small_store = fst (the (sbitsInit small_params 1))"



text \<open>The small store with variable data, two bytes before the end of its current
  variable-data page.\<close>

definition var_store :: sbitsState where
  "var_store = small_store\<lparr>usingVData := True, varFile := Some Map.empty,
     numVarPages := 3, numAvailVarPages := 3, currentVarLoc := 20\<rparr>"

text \<open>A data page with the record of key 5, whose blob is at offset 4, and a store that
  holds this page while the blobs of all keys below 6 have been reclaimed.\<close>

definition stale_page :: page where
  "stale_page = blank_page\<lparr>pg_count := 1,
     pg_recs := (\<lambda>_. zero_rec)(0 := \<lparr>r_key = 5, r_data = 50, r_var = 4\<rparr>)\<rparr>"

definition stale_store :: sbitsState where
  "stale_store = var_store\<lparr>nextPageId := 1, nextPageWriteId := 1, minVarRecordId := 6,
     dataFile := Some (Map.empty(0 \<mapsto> stale_page))\<rparr>"

text \<open>An index that always answers page 0, and estimates that are 0.\<close>

definition demo_ext :: ext where
  "demo_ext = \<lparr>splineFind = (\<lambda>pts key. (0, 0, 0)), getMaxError = (\<lambda>s p. 0),
     sbitsEstimateKeyLocation = (\<lambda>s p k. 0)\<rparr>"

subsection \<open>Notions used in the properties\<close>

text \<open>The physical page at which \<^verbatim>\<open>writePage\<close> writes: the start of the data
  storage when the writer has reached its end.\<close>

definition writePage_pos :: "sbitsState \<Rightarrow> nat" where
  "writePage_pos s =
     (if nextPageWriteId s \<ge> endDataPage s then startDataPage s else nextPageWriteId s)"



subsection \<open>Calls in sequence\<close>

text \<open>
  A client of the store: the operations of the interface, called one after the other on
  the state that the call before has left. What a call returns is dropped here. A run has
  no value when one of its calls has none.
\<close>

datatype call =
    Put nat nat
  | PutVar nat nat "(nat \<Rightarrow> nat) option" nat
  | Flush
  | Get nat
  | GetVar nat

fun do_call :: "ext \<Rightarrow> sbitsState \<Rightarrow> call \<Rightarrow> sbitsState option" where
  "do_call x s (Put key data) = map_option fst (sbitsPut x s key data)"
| "do_call x s (PutVar key data blob len) = map_option fst (sbitsPutVar x s key data blob len)"
| "do_call x s Flush = map_option fst (sbitsFlush s)"
| "do_call x s (Get key) = map_option fst (sbitsGet x s key)"
| "do_call x s (GetVar key) = map_option fst (sbitsGetVar x s key)"

fun run_calls :: "ext \<Rightarrow> sbitsState \<Rightarrow> call list \<Rightarrow> sbitsState option" where
  "run_calls x s [] = Some s"
| "run_calls x s (c # cs) =
     (case do_call x s c of None \<Rightarrow> None | Some s1 \<Rightarrow> run_calls x s1 cs)"

text \<open>The keys that a sequence of calls inserts, in the order of the calls.\<close>

fun call_keys :: "call list \<Rightarrow> nat list" where
  "call_keys [] = []"
| "call_keys (Put key data # cs) = key # call_keys cs"
| "call_keys (PutVar key data blob len # cs) = key # call_keys cs"
| "call_keys (c # cs) = call_keys cs"

subsection \<open>What is said of the pages\<close>

text \<open>Every key of page \<open>p\<close> is before every key of page \<open>q\<close>, and the keys of a page
  are in order, for an order \<open>le\<close> on keys.\<close>

definition keys_below :: "(nat \<Rightarrow> nat \<Rightarrow> bool) \<Rightarrow> page \<Rightarrow> page \<Rightarrow> bool" where
  "keys_below le p q =
     (\<forall>i<pg_count p. \<forall>j<pg_count q. le (r_key (pg_recs p i)) (r_key (pg_recs q j)))"

definition page_sorted :: "(nat \<Rightarrow> nat \<Rightarrow> bool) \<Rightarrow> page \<Rightarrow> bool" where
  "page_sorted le p =
     (\<forall>j<pg_count p. \<forall>i<j. le (r_key (pg_recs p i)) (r_key (pg_recs p j)))"

text \<open>Two states with the same data storage: the file, the page counters, the layout.\<close>

definition same_data :: "sbitsState \<Rightarrow> sbitsState \<Rightarrow> bool" where
  "same_data s s' =
     (dataFile s' = dataFile s \<and> nextPageId s' = nextPageId s
      \<and> nextPageWriteId s' = nextPageWriteId s \<and> erasedEndPage s' = erasedEndPage s
      \<and> firstDataPage s' = firstDataPage s \<and> firstDataPageId s' = firstDataPageId s
      \<and> wrappedMemory s' = wrappedMemory s \<and> startDataPage s' = startDataPage s
      \<and> endDataPage s' = endDataPage s \<and> eraseSizeInPages s' = eraseSizeInPages s
      \<and> maxRecordsPerPage s' = maxRecordsPerPage s)"

text \<open>The same data storage and the same write buffer.\<close>

definition same_store :: "sbitsState \<Rightarrow> sbitsState \<Rightarrow> bool" where
  "same_store s s' = (same_data s s' \<and> wbuf s' = wbuf s)"

text \<open>The keys in the store are keys of \<open>K\<close> and lie in the order of the logical pages:
  in order inside each page, the pages of the file before the write buffer, a page of the
  file before every page of a larger logical id.\<close>

definition key_order :: "(nat \<Rightarrow> nat \<Rightarrow> bool) \<Rightarrow> nat set \<Rightarrow> sbitsState \<Rightarrow> bool" where
  "key_order le K s =
     (page_sorted le (wbuf s) \<and> (\<forall>i<pg_count (wbuf s). r_key (pg_recs (wbuf s) i) \<in> K) \<and>
      (\<exists>f. dataFile s = Some f \<and>
        (\<forall>a p. f a = Some p \<longrightarrow>
           pg_id p < nextPageId s \<and> page_sorted le p \<and> keys_below le p (wbuf s) \<and>
           (\<forall>i<pg_count p. r_key (pg_recs p i) \<in> K) \<and>
           (\<forall>b q. f b = Some q \<longrightarrow> pg_id p < pg_id q \<longrightarrow> keys_below le p q))))"

text \<open>Every logical page that has not been overwritten is at the physical page that is
  its logical id modulo the number of data pages.\<close>

definition placed :: "sbitsState \<Rightarrow> bool" where
  "placed s =
     (0 < endDataPage s \<and> startDataPage s = 0 \<and> nextPageWriteId s \<le> endDataPage s \<and>
      nextPageWriteId s mod endDataPage s = nextPageId s mod endDataPage s \<and>
      (\<exists>f. dataFile s = Some f \<and>
        (\<forall>l<nextPageId s. nextPageId s \<le> l + endDataPage s \<longrightarrow>
           (\<exists>p. f (l mod endDataPage s) = Some p \<and> pg_id p = l))))"

text \<open>The erase blocks have at least two pages and divide the data storage, and the
  erased region ends at the end of an erase block.\<close>

definition erase_aligned :: "sbitsState \<Rightarrow> bool" where
  "erase_aligned s =
     (2 \<le> eraseSizeInPages s \<and> eraseSizeInPages s dvd endDataPage s \<and> 0 < endDataPage s \<and>
      startDataPage s = 0 \<and> nextPageWriteId s \<le> endDataPage s \<and>
      (if wrappedMemory s = 0 then firstDataPage s = 0 \<and> firstDataPageId s = 0
       else firstDataPage s = erasedEndPage s + 1 \<and>
            firstDataPageId s mod endDataPage s = firstDataPage s mod endDataPage s \<and>
            eraseSizeInPages s dvd erasedEndPage s + 1 \<and> erasedEndPage s < endDataPage s \<and>
            (erasedEndPage s < nextPageWriteId s \<longrightarrow> erasedEndPage s + 1 = endDataPage s)))"

section \<open>Properties\<close>

subsection \<open>What each function leaves alone\<close>

lemma writePage_stamp_frame [simp]:
  "keySize (writePage_stamp s) = keySize s"
  "dataSize (writePage_stamp s) = dataSize s"
  "pageSize (writePage_stamp s) = pageSize s"
  "eraseSizeInPages (writePage_stamp s) = eraseSizeInPages s"
  "maxRecordsPerPage (writePage_stamp s) = maxRecordsPerPage s"
  "usingVData (writePage_stamp s) = usingVData s"
  "compareKey (writePage_stamp s) = compareKey s"
  "dataFile (writePage_stamp s) = dataFile s"
  "startDataPage (writePage_stamp s) = startDataPage s"
  "endDataPage (writePage_stamp s) = endDataPage s"
  "firstDataPage (writePage_stamp s) = firstDataPage s"
  "firstDataPageId (writePage_stamp s) = firstDataPageId s"
  "erasedEndPage (writePage_stamp s) = erasedEndPage s"
  "nextPageWriteId (writePage_stamp s) = nextPageWriteId s"
  "wrappedMemory (writePage_stamp s) = wrappedMemory s"
  "minKey (writePage_stamp s) = minKey s"
  "maxError (writePage_stamp s) = maxError s"
  "bufferedPageId (writePage_stamp s) = bufferedPageId s"
  "rbuf (writePage_stamp s) = rbuf s"
  "varFile (writePage_stamp s) = varFile s"
  "currentVarLoc (writePage_stamp s) = currentVarLoc s"
  "minVarRecordId (writePage_stamp s) = minVarRecordId s"
  "numVarPages (writePage_stamp s) = numVarPages s"
  "numAvailVarPages (writePage_stamp s) = numAvailVarPages s"
  "nextVarPageId (writePage_stamp s) = nextVarPageId s"
  "recordHasVarData (writePage_stamp s) = recordHasVarData s"
  "bufferedVarPage (writePage_stamp s) = bufferedVarPage s"
  "varwbuf (writePage_stamp s) = varwbuf s"
  "varrbuf (writePage_stamp s) = varrbuf s"
  "spl (writePage_stamp s) = spl s"
  "indexFile (writePage_stamp s) = indexFile s"
  by (simp_all add: writePage_stamp_def Let_def)

lemma writePage_erase_frame [simp]:
  "keySize (writePage_erase s) = keySize s"
  "dataSize (writePage_erase s) = dataSize s"
  "pageSize (writePage_erase s) = pageSize s"
  "eraseSizeInPages (writePage_erase s) = eraseSizeInPages s"
  "maxRecordsPerPage (writePage_erase s) = maxRecordsPerPage s"
  "usingVData (writePage_erase s) = usingVData s"
  "compareKey (writePage_erase s) = compareKey s"
  "dataFile (writePage_erase s) = dataFile s"
  "startDataPage (writePage_erase s) = startDataPage s"
  "endDataPage (writePage_erase s) = endDataPage s"
  "nextPageId (writePage_erase s) = nextPageId s"
  "nextPageWriteId (writePage_erase s) = nextPageWriteId s"
  "wrappedMemory (writePage_erase s) = wrappedMemory s"
  "maxError (writePage_erase s) = maxError s"
  "bufferedPageId (writePage_erase s) = bufferedPageId s"
  "wbuf (writePage_erase s) = wbuf s"
  "rbuf (writePage_erase s) = rbuf s"
  "varFile (writePage_erase s) = varFile s"
  "currentVarLoc (writePage_erase s) = currentVarLoc s"
  "minVarRecordId (writePage_erase s) = minVarRecordId s"
  "numVarPages (writePage_erase s) = numVarPages s"
  "numAvailVarPages (writePage_erase s) = numAvailVarPages s"
  "nextVarPageId (writePage_erase s) = nextVarPageId s"
  "recordHasVarData (writePage_erase s) = recordHasVarData s"
  "bufferedVarPage (writePage_erase s) = bufferedVarPage s"
  "varwbuf (writePage_erase s) = varwbuf s"
  "varrbuf (writePage_erase s) = varrbuf s"
  "spl (writePage_erase s) = spl s"
  "indexFile (writePage_erase s) = indexFile s"
  by (simp_all add: writePage_erase_def Let_def)

lemma writePage_wrap_frame [simp]:
  "keySize (writePage_wrap s) = keySize s"
  "dataSize (writePage_wrap s) = dataSize s"
  "pageSize (writePage_wrap s) = pageSize s"
  "eraseSizeInPages (writePage_wrap s) = eraseSizeInPages s"
  "maxRecordsPerPage (writePage_wrap s) = maxRecordsPerPage s"
  "usingVData (writePage_wrap s) = usingVData s"
  "compareKey (writePage_wrap s) = compareKey s"
  "dataFile (writePage_wrap s) = dataFile s"
  "startDataPage (writePage_wrap s) = startDataPage s"
  "endDataPage (writePage_wrap s) = endDataPage s"
  "nextPageId (writePage_wrap s) = nextPageId s"
  "maxError (writePage_wrap s) = maxError s"
  "bufferedPageId (writePage_wrap s) = bufferedPageId s"
  "wbuf (writePage_wrap s) = wbuf s"
  "rbuf (writePage_wrap s) = rbuf s"
  "varFile (writePage_wrap s) = varFile s"
  "currentVarLoc (writePage_wrap s) = currentVarLoc s"
  "minVarRecordId (writePage_wrap s) = minVarRecordId s"
  "numVarPages (writePage_wrap s) = numVarPages s"
  "numAvailVarPages (writePage_wrap s) = numAvailVarPages s"
  "nextVarPageId (writePage_wrap s) = nextVarPageId s"
  "recordHasVarData (writePage_wrap s) = recordHasVarData s"
  "bufferedVarPage (writePage_wrap s) = bufferedVarPage s"
  "varwbuf (writePage_wrap s) = varwbuf s"
  "varrbuf (writePage_wrap s) = varrbuf s"
  "spl (writePage_wrap s) = spl s"
  "indexFile (writePage_wrap s) = indexFile s"
  by (simp_all add: writePage_wrap_def Let_def)

lemma writePage_store_frame [simp]:
  "keySize (writePage_store s f) = keySize s"
  "dataSize (writePage_store s f) = dataSize s"
  "pageSize (writePage_store s f) = pageSize s"
  "eraseSizeInPages (writePage_store s f) = eraseSizeInPages s"
  "maxRecordsPerPage (writePage_store s f) = maxRecordsPerPage s"
  "usingVData (writePage_store s f) = usingVData s"
  "compareKey (writePage_store s f) = compareKey s"
  "startDataPage (writePage_store s f) = startDataPage s"
  "endDataPage (writePage_store s f) = endDataPage s"
  "firstDataPage (writePage_store s f) = firstDataPage s"
  "firstDataPageId (writePage_store s f) = firstDataPageId s"
  "erasedEndPage (writePage_store s f) = erasedEndPage s"
  "nextPageId (writePage_store s f) = nextPageId s"
  "wrappedMemory (writePage_store s f) = wrappedMemory s"
  "minKey (writePage_store s f) = minKey s"
  "maxError (writePage_store s f) = maxError s"
  "bufferedPageId (writePage_store s f) = bufferedPageId s"
  "wbuf (writePage_store s f) = wbuf s"
  "rbuf (writePage_store s f) = rbuf s"
  "varFile (writePage_store s f) = varFile s"
  "currentVarLoc (writePage_store s f) = currentVarLoc s"
  "minVarRecordId (writePage_store s f) = minVarRecordId s"
  "numVarPages (writePage_store s f) = numVarPages s"
  "numAvailVarPages (writePage_store s f) = numAvailVarPages s"
  "nextVarPageId (writePage_store s f) = nextVarPageId s"
  "recordHasVarData (writePage_store s f) = recordHasVarData s"
  "bufferedVarPage (writePage_store s f) = bufferedVarPage s"
  "varwbuf (writePage_store s f) = varwbuf s"
  "varrbuf (writePage_store s f) = varrbuf s"
  "spl (writePage_store s f) = spl s"
  "indexFile (writePage_store s f) = indexFile s"
  by (simp_all add: writePage_store_def Let_def)

lemma writePage_frame [simp]:
  "keySize (fst (writePage s)) = keySize s"
  "dataSize (fst (writePage s)) = dataSize s"
  "pageSize (fst (writePage s)) = pageSize s"
  "eraseSizeInPages (fst (writePage s)) = eraseSizeInPages s"
  "maxRecordsPerPage (fst (writePage s)) = maxRecordsPerPage s"
  "usingVData (fst (writePage s)) = usingVData s"
  "compareKey (fst (writePage s)) = compareKey s"
  "startDataPage (fst (writePage s)) = startDataPage s"
  "endDataPage (fst (writePage s)) = endDataPage s"
  "maxError (fst (writePage s)) = maxError s"
  "bufferedPageId (fst (writePage s)) = bufferedPageId s"
  "rbuf (fst (writePage s)) = rbuf s"
  "varFile (fst (writePage s)) = varFile s"
  "currentVarLoc (fst (writePage s)) = currentVarLoc s"
  "minVarRecordId (fst (writePage s)) = minVarRecordId s"
  "numVarPages (fst (writePage s)) = numVarPages s"
  "numAvailVarPages (fst (writePage s)) = numAvailVarPages s"
  "nextVarPageId (fst (writePage s)) = nextVarPageId s"
  "recordHasVarData (fst (writePage s)) = recordHasVarData s"
  "bufferedVarPage (fst (writePage s)) = bufferedVarPage s"
  "varwbuf (fst (writePage s)) = varwbuf s"
  "varrbuf (fst (writePage s)) = varrbuf s"
  "spl (fst (writePage s)) = spl s"
  "indexFile (fst (writePage s)) = indexFile s"
  by (simp_all add: writePage_def split: option.splits)

lemma writeIndexPage_erase_frame [simp]:
  "keySize (writeIndexPage_erase s) = keySize s"
  "dataSize (writeIndexPage_erase s) = dataSize s"
  "pageSize (writeIndexPage_erase s) = pageSize s"
  "eraseSizeInPages (writeIndexPage_erase s) = eraseSizeInPages s"
  "maxRecordsPerPage (writeIndexPage_erase s) = maxRecordsPerPage s"
  "usingVData (writeIndexPage_erase s) = usingVData s"
  "compareKey (writeIndexPage_erase s) = compareKey s"
  "dataFile (writeIndexPage_erase s) = dataFile s"
  "startDataPage (writeIndexPage_erase s) = startDataPage s"
  "endDataPage (writeIndexPage_erase s) = endDataPage s"
  "firstDataPage (writeIndexPage_erase s) = firstDataPage s"
  "firstDataPageId (writeIndexPage_erase s) = firstDataPageId s"
  "erasedEndPage (writeIndexPage_erase s) = erasedEndPage s"
  "nextPageId (writeIndexPage_erase s) = nextPageId s"
  "nextPageWriteId (writeIndexPage_erase s) = nextPageWriteId s"
  "wrappedMemory (writeIndexPage_erase s) = wrappedMemory s"
  "minKey (writeIndexPage_erase s) = minKey s"
  "maxError (writeIndexPage_erase s) = maxError s"
  "bufferedPageId (writeIndexPage_erase s) = bufferedPageId s"
  "wbuf (writeIndexPage_erase s) = wbuf s"
  "rbuf (writeIndexPage_erase s) = rbuf s"
  "varFile (writeIndexPage_erase s) = varFile s"
  "currentVarLoc (writeIndexPage_erase s) = currentVarLoc s"
  "minVarRecordId (writeIndexPage_erase s) = minVarRecordId s"
  "numVarPages (writeIndexPage_erase s) = numVarPages s"
  "numAvailVarPages (writeIndexPage_erase s) = numAvailVarPages s"
  "nextVarPageId (writeIndexPage_erase s) = nextVarPageId s"
  "recordHasVarData (writeIndexPage_erase s) = recordHasVarData s"
  "bufferedVarPage (writeIndexPage_erase s) = bufferedVarPage s"
  "varwbuf (writeIndexPage_erase s) = varwbuf s"
  "varrbuf (writeIndexPage_erase s) = varrbuf s"
  "spl (writeIndexPage_erase s) = spl s"
  by (simp_all add: writeIndexPage_erase_def Let_def)

lemma writeIndexPage_wrap_frame [simp]:
  "keySize (writeIndexPage_wrap s) = keySize s"
  "dataSize (writeIndexPage_wrap s) = dataSize s"
  "pageSize (writeIndexPage_wrap s) = pageSize s"
  "eraseSizeInPages (writeIndexPage_wrap s) = eraseSizeInPages s"
  "maxRecordsPerPage (writeIndexPage_wrap s) = maxRecordsPerPage s"
  "usingVData (writeIndexPage_wrap s) = usingVData s"
  "compareKey (writeIndexPage_wrap s) = compareKey s"
  "dataFile (writeIndexPage_wrap s) = dataFile s"
  "startDataPage (writeIndexPage_wrap s) = startDataPage s"
  "endDataPage (writeIndexPage_wrap s) = endDataPage s"
  "firstDataPage (writeIndexPage_wrap s) = firstDataPage s"
  "firstDataPageId (writeIndexPage_wrap s) = firstDataPageId s"
  "erasedEndPage (writeIndexPage_wrap s) = erasedEndPage s"
  "nextPageId (writeIndexPage_wrap s) = nextPageId s"
  "nextPageWriteId (writeIndexPage_wrap s) = nextPageWriteId s"
  "wrappedMemory (writeIndexPage_wrap s) = wrappedMemory s"
  "minKey (writeIndexPage_wrap s) = minKey s"
  "maxError (writeIndexPage_wrap s) = maxError s"
  "bufferedPageId (writeIndexPage_wrap s) = bufferedPageId s"
  "wbuf (writeIndexPage_wrap s) = wbuf s"
  "rbuf (writeIndexPage_wrap s) = rbuf s"
  "varFile (writeIndexPage_wrap s) = varFile s"
  "currentVarLoc (writeIndexPage_wrap s) = currentVarLoc s"
  "minVarRecordId (writeIndexPage_wrap s) = minVarRecordId s"
  "numVarPages (writeIndexPage_wrap s) = numVarPages s"
  "numAvailVarPages (writeIndexPage_wrap s) = numAvailVarPages s"
  "nextVarPageId (writeIndexPage_wrap s) = nextVarPageId s"
  "recordHasVarData (writeIndexPage_wrap s) = recordHasVarData s"
  "bufferedVarPage (writeIndexPage_wrap s) = bufferedVarPage s"
  "varwbuf (writeIndexPage_wrap s) = varwbuf s"
  "varrbuf (writeIndexPage_wrap s) = varrbuf s"
  "spl (writeIndexPage_wrap s) = spl s"
  by (simp_all add: writeIndexPage_wrap_def Let_def)

lemma writeIndexPage_store_frame [simp]:
  "keySize (writeIndexPage_store s f) = keySize s"
  "dataSize (writeIndexPage_store s f) = dataSize s"
  "pageSize (writeIndexPage_store s f) = pageSize s"
  "eraseSizeInPages (writeIndexPage_store s f) = eraseSizeInPages s"
  "maxRecordsPerPage (writeIndexPage_store s f) = maxRecordsPerPage s"
  "usingVData (writeIndexPage_store s f) = usingVData s"
  "compareKey (writeIndexPage_store s f) = compareKey s"
  "dataFile (writeIndexPage_store s f) = dataFile s"
  "startDataPage (writeIndexPage_store s f) = startDataPage s"
  "endDataPage (writeIndexPage_store s f) = endDataPage s"
  "firstDataPage (writeIndexPage_store s f) = firstDataPage s"
  "firstDataPageId (writeIndexPage_store s f) = firstDataPageId s"
  "erasedEndPage (writeIndexPage_store s f) = erasedEndPage s"
  "nextPageId (writeIndexPage_store s f) = nextPageId s"
  "nextPageWriteId (writeIndexPage_store s f) = nextPageWriteId s"
  "wrappedMemory (writeIndexPage_store s f) = wrappedMemory s"
  "minKey (writeIndexPage_store s f) = minKey s"
  "maxError (writeIndexPage_store s f) = maxError s"
  "bufferedPageId (writeIndexPage_store s f) = bufferedPageId s"
  "wbuf (writeIndexPage_store s f) = wbuf s"
  "rbuf (writeIndexPage_store s f) = rbuf s"
  "varFile (writeIndexPage_store s f) = varFile s"
  "currentVarLoc (writeIndexPage_store s f) = currentVarLoc s"
  "minVarRecordId (writeIndexPage_store s f) = minVarRecordId s"
  "numVarPages (writeIndexPage_store s f) = numVarPages s"
  "numAvailVarPages (writeIndexPage_store s f) = numAvailVarPages s"
  "nextVarPageId (writeIndexPage_store s f) = nextVarPageId s"
  "recordHasVarData (writeIndexPage_store s f) = recordHasVarData s"
  "bufferedVarPage (writeIndexPage_store s f) = bufferedVarPage s"
  "varwbuf (writeIndexPage_store s f) = varwbuf s"
  "varrbuf (writeIndexPage_store s f) = varrbuf s"
  "spl (writeIndexPage_store s f) = spl s"
  by (simp_all add: writeIndexPage_store_def Let_def)

lemma writeIndexPage_frame [simp]:
  "keySize (fst (writeIndexPage s)) = keySize s"
  "dataSize (fst (writeIndexPage s)) = dataSize s"
  "pageSize (fst (writeIndexPage s)) = pageSize s"
  "eraseSizeInPages (fst (writeIndexPage s)) = eraseSizeInPages s"
  "maxRecordsPerPage (fst (writeIndexPage s)) = maxRecordsPerPage s"
  "usingVData (fst (writeIndexPage s)) = usingVData s"
  "compareKey (fst (writeIndexPage s)) = compareKey s"
  "dataFile (fst (writeIndexPage s)) = dataFile s"
  "startDataPage (fst (writeIndexPage s)) = startDataPage s"
  "endDataPage (fst (writeIndexPage s)) = endDataPage s"
  "firstDataPage (fst (writeIndexPage s)) = firstDataPage s"
  "firstDataPageId (fst (writeIndexPage s)) = firstDataPageId s"
  "erasedEndPage (fst (writeIndexPage s)) = erasedEndPage s"
  "nextPageId (fst (writeIndexPage s)) = nextPageId s"
  "nextPageWriteId (fst (writeIndexPage s)) = nextPageWriteId s"
  "wrappedMemory (fst (writeIndexPage s)) = wrappedMemory s"
  "minKey (fst (writeIndexPage s)) = minKey s"
  "maxError (fst (writeIndexPage s)) = maxError s"
  "bufferedPageId (fst (writeIndexPage s)) = bufferedPageId s"
  "wbuf (fst (writeIndexPage s)) = wbuf s"
  "rbuf (fst (writeIndexPage s)) = rbuf s"
  "varFile (fst (writeIndexPage s)) = varFile s"
  "currentVarLoc (fst (writeIndexPage s)) = currentVarLoc s"
  "minVarRecordId (fst (writeIndexPage s)) = minVarRecordId s"
  "numVarPages (fst (writeIndexPage s)) = numVarPages s"
  "numAvailVarPages (fst (writeIndexPage s)) = numAvailVarPages s"
  "nextVarPageId (fst (writeIndexPage s)) = nextVarPageId s"
  "recordHasVarData (fst (writeIndexPage s)) = recordHasVarData s"
  "bufferedVarPage (fst (writeIndexPage s)) = bufferedVarPage s"
  "varwbuf (fst (writeIndexPage s)) = varwbuf s"
  "varrbuf (fst (writeIndexPage s)) = varrbuf s"
  "spl (fst (writeIndexPage s)) = spl s"
  by (simp_all add: writeIndexPage_def Let_def split: option.splits)

lemma indexPage_frame [simp]:
  "keySize (indexPage s n) = keySize s"
  "dataSize (indexPage s n) = dataSize s"
  "pageSize (indexPage s n) = pageSize s"
  "eraseSizeInPages (indexPage s n) = eraseSizeInPages s"
  "maxRecordsPerPage (indexPage s n) = maxRecordsPerPage s"
  "usingVData (indexPage s n) = usingVData s"
  "compareKey (indexPage s n) = compareKey s"
  "dataFile (indexPage s n) = dataFile s"
  "startDataPage (indexPage s n) = startDataPage s"
  "endDataPage (indexPage s n) = endDataPage s"
  "firstDataPage (indexPage s n) = firstDataPage s"
  "firstDataPageId (indexPage s n) = firstDataPageId s"
  "erasedEndPage (indexPage s n) = erasedEndPage s"
  "nextPageId (indexPage s n) = nextPageId s"
  "nextPageWriteId (indexPage s n) = nextPageWriteId s"
  "wrappedMemory (indexPage s n) = wrappedMemory s"
  "minKey (indexPage s n) = minKey s"
  "maxError (indexPage s n) = maxError s"
  "bufferedPageId (indexPage s n) = bufferedPageId s"
  "wbuf (indexPage s n) = wbuf s"
  "rbuf (indexPage s n) = rbuf s"
  "varFile (indexPage s n) = varFile s"
  "currentVarLoc (indexPage s n) = currentVarLoc s"
  "minVarRecordId (indexPage s n) = minVarRecordId s"
  "numVarPages (indexPage s n) = numVarPages s"
  "numAvailVarPages (indexPage s n) = numAvailVarPages s"
  "nextVarPageId (indexPage s n) = nextVarPageId s"
  "recordHasVarData (indexPage s n) = recordHasVarData s"
  "bufferedVarPage (indexPage s n) = bufferedVarPage s"
  "varwbuf (indexPage s n) = varwbuf s"
  "varrbuf (indexPage s n) = varrbuf s"
  "indexFile (indexPage s n) = indexFile s"
  by (simp_all add: indexPage_def)

lemma initBufferPage_data_frame [simp]:
  "keySize (initBufferPage s DATA_WRITE_BUFFER) = keySize s"
  "dataSize (initBufferPage s DATA_WRITE_BUFFER) = dataSize s"
  "pageSize (initBufferPage s DATA_WRITE_BUFFER) = pageSize s"
  "eraseSizeInPages (initBufferPage s DATA_WRITE_BUFFER) = eraseSizeInPages s"
  "maxRecordsPerPage (initBufferPage s DATA_WRITE_BUFFER) = maxRecordsPerPage s"
  "usingVData (initBufferPage s DATA_WRITE_BUFFER) = usingVData s"
  "compareKey (initBufferPage s DATA_WRITE_BUFFER) = compareKey s"
  "dataFile (initBufferPage s DATA_WRITE_BUFFER) = dataFile s"
  "startDataPage (initBufferPage s DATA_WRITE_BUFFER) = startDataPage s"
  "endDataPage (initBufferPage s DATA_WRITE_BUFFER) = endDataPage s"
  "firstDataPage (initBufferPage s DATA_WRITE_BUFFER) = firstDataPage s"
  "firstDataPageId (initBufferPage s DATA_WRITE_BUFFER) = firstDataPageId s"
  "erasedEndPage (initBufferPage s DATA_WRITE_BUFFER) = erasedEndPage s"
  "nextPageId (initBufferPage s DATA_WRITE_BUFFER) = nextPageId s"
  "nextPageWriteId (initBufferPage s DATA_WRITE_BUFFER) = nextPageWriteId s"
  "wrappedMemory (initBufferPage s DATA_WRITE_BUFFER) = wrappedMemory s"
  "minKey (initBufferPage s DATA_WRITE_BUFFER) = minKey s"
  "maxError (initBufferPage s DATA_WRITE_BUFFER) = maxError s"
  "bufferedPageId (initBufferPage s DATA_WRITE_BUFFER) = bufferedPageId s"
  "rbuf (initBufferPage s DATA_WRITE_BUFFER) = rbuf s"
  "varFile (initBufferPage s DATA_WRITE_BUFFER) = varFile s"
  "currentVarLoc (initBufferPage s DATA_WRITE_BUFFER) = currentVarLoc s"
  "minVarRecordId (initBufferPage s DATA_WRITE_BUFFER) = minVarRecordId s"
  "numVarPages (initBufferPage s DATA_WRITE_BUFFER) = numVarPages s"
  "numAvailVarPages (initBufferPage s DATA_WRITE_BUFFER) = numAvailVarPages s"
  "nextVarPageId (initBufferPage s DATA_WRITE_BUFFER) = nextVarPageId s"
  "recordHasVarData (initBufferPage s DATA_WRITE_BUFFER) = recordHasVarData s"
  "bufferedVarPage (initBufferPage s DATA_WRITE_BUFFER) = bufferedVarPage s"
  "varwbuf (initBufferPage s DATA_WRITE_BUFFER) = varwbuf s"
  "varrbuf (initBufferPage s DATA_WRITE_BUFFER) = varrbuf s"
  "spl (initBufferPage s DATA_WRITE_BUFFER) = spl s"
  "indexFile (initBufferPage s DATA_WRITE_BUFFER) = indexFile s"
  by simp_all

lemma initBufferPage_index_frame [simp]:
  "keySize (initBufferPage s INDEX_WRITE_BUFFER) = keySize s"
  "dataSize (initBufferPage s INDEX_WRITE_BUFFER) = dataSize s"
  "pageSize (initBufferPage s INDEX_WRITE_BUFFER) = pageSize s"
  "eraseSizeInPages (initBufferPage s INDEX_WRITE_BUFFER) = eraseSizeInPages s"
  "maxRecordsPerPage (initBufferPage s INDEX_WRITE_BUFFER) = maxRecordsPerPage s"
  "usingVData (initBufferPage s INDEX_WRITE_BUFFER) = usingVData s"
  "compareKey (initBufferPage s INDEX_WRITE_BUFFER) = compareKey s"
  "dataFile (initBufferPage s INDEX_WRITE_BUFFER) = dataFile s"
  "startDataPage (initBufferPage s INDEX_WRITE_BUFFER) = startDataPage s"
  "endDataPage (initBufferPage s INDEX_WRITE_BUFFER) = endDataPage s"
  "firstDataPage (initBufferPage s INDEX_WRITE_BUFFER) = firstDataPage s"
  "firstDataPageId (initBufferPage s INDEX_WRITE_BUFFER) = firstDataPageId s"
  "erasedEndPage (initBufferPage s INDEX_WRITE_BUFFER) = erasedEndPage s"
  "nextPageId (initBufferPage s INDEX_WRITE_BUFFER) = nextPageId s"
  "nextPageWriteId (initBufferPage s INDEX_WRITE_BUFFER) = nextPageWriteId s"
  "wrappedMemory (initBufferPage s INDEX_WRITE_BUFFER) = wrappedMemory s"
  "minKey (initBufferPage s INDEX_WRITE_BUFFER) = minKey s"
  "maxError (initBufferPage s INDEX_WRITE_BUFFER) = maxError s"
  "bufferedPageId (initBufferPage s INDEX_WRITE_BUFFER) = bufferedPageId s"
  "wbuf (initBufferPage s INDEX_WRITE_BUFFER) = wbuf s"
  "rbuf (initBufferPage s INDEX_WRITE_BUFFER) = rbuf s"
  "varFile (initBufferPage s INDEX_WRITE_BUFFER) = varFile s"
  "currentVarLoc (initBufferPage s INDEX_WRITE_BUFFER) = currentVarLoc s"
  "minVarRecordId (initBufferPage s INDEX_WRITE_BUFFER) = minVarRecordId s"
  "numVarPages (initBufferPage s INDEX_WRITE_BUFFER) = numVarPages s"
  "numAvailVarPages (initBufferPage s INDEX_WRITE_BUFFER) = numAvailVarPages s"
  "nextVarPageId (initBufferPage s INDEX_WRITE_BUFFER) = nextVarPageId s"
  "recordHasVarData (initBufferPage s INDEX_WRITE_BUFFER) = recordHasVarData s"
  "bufferedVarPage (initBufferPage s INDEX_WRITE_BUFFER) = bufferedVarPage s"
  "varwbuf (initBufferPage s INDEX_WRITE_BUFFER) = varwbuf s"
  "varrbuf (initBufferPage s INDEX_WRITE_BUFFER) = varrbuf s"
  "spl (initBufferPage s INDEX_WRITE_BUFFER) = spl s"
  "indexFile (initBufferPage s INDEX_WRITE_BUFFER) = indexFile s"
  by simp_all

lemma initBufferPage_var_frame [simp]:
  "keySize (initBufferPage s VAR_WRITE_BUFFER) = keySize s"
  "dataSize (initBufferPage s VAR_WRITE_BUFFER) = dataSize s"
  "pageSize (initBufferPage s VAR_WRITE_BUFFER) = pageSize s"
  "eraseSizeInPages (initBufferPage s VAR_WRITE_BUFFER) = eraseSizeInPages s"
  "maxRecordsPerPage (initBufferPage s VAR_WRITE_BUFFER) = maxRecordsPerPage s"
  "usingVData (initBufferPage s VAR_WRITE_BUFFER) = usingVData s"
  "compareKey (initBufferPage s VAR_WRITE_BUFFER) = compareKey s"
  "dataFile (initBufferPage s VAR_WRITE_BUFFER) = dataFile s"
  "startDataPage (initBufferPage s VAR_WRITE_BUFFER) = startDataPage s"
  "endDataPage (initBufferPage s VAR_WRITE_BUFFER) = endDataPage s"
  "firstDataPage (initBufferPage s VAR_WRITE_BUFFER) = firstDataPage s"
  "firstDataPageId (initBufferPage s VAR_WRITE_BUFFER) = firstDataPageId s"
  "erasedEndPage (initBufferPage s VAR_WRITE_BUFFER) = erasedEndPage s"
  "nextPageId (initBufferPage s VAR_WRITE_BUFFER) = nextPageId s"
  "nextPageWriteId (initBufferPage s VAR_WRITE_BUFFER) = nextPageWriteId s"
  "wrappedMemory (initBufferPage s VAR_WRITE_BUFFER) = wrappedMemory s"
  "minKey (initBufferPage s VAR_WRITE_BUFFER) = minKey s"
  "maxError (initBufferPage s VAR_WRITE_BUFFER) = maxError s"
  "bufferedPageId (initBufferPage s VAR_WRITE_BUFFER) = bufferedPageId s"
  "wbuf (initBufferPage s VAR_WRITE_BUFFER) = wbuf s"
  "rbuf (initBufferPage s VAR_WRITE_BUFFER) = rbuf s"
  "varFile (initBufferPage s VAR_WRITE_BUFFER) = varFile s"
  "currentVarLoc (initBufferPage s VAR_WRITE_BUFFER) = currentVarLoc s"
  "minVarRecordId (initBufferPage s VAR_WRITE_BUFFER) = minVarRecordId s"
  "numVarPages (initBufferPage s VAR_WRITE_BUFFER) = numVarPages s"
  "numAvailVarPages (initBufferPage s VAR_WRITE_BUFFER) = numAvailVarPages s"
  "nextVarPageId (initBufferPage s VAR_WRITE_BUFFER) = nextVarPageId s"
  "recordHasVarData (initBufferPage s VAR_WRITE_BUFFER) = recordHasVarData s"
  "bufferedVarPage (initBufferPage s VAR_WRITE_BUFFER) = bufferedVarPage s"
  "varrbuf (initBufferPage s VAR_WRITE_BUFFER) = varrbuf s"
  "spl (initBufferPage s VAR_WRITE_BUFFER) = spl s"
  "indexFile (initBufferPage s VAR_WRITE_BUFFER) = indexFile s"
  by simp_all

lemma sbitsPut_index_frame [simp]:
  "keySize (sbitsPut_index s n) = keySize s"
  "dataSize (sbitsPut_index s n) = dataSize s"
  "pageSize (sbitsPut_index s n) = pageSize s"
  "eraseSizeInPages (sbitsPut_index s n) = eraseSizeInPages s"
  "maxRecordsPerPage (sbitsPut_index s n) = maxRecordsPerPage s"
  "usingVData (sbitsPut_index s n) = usingVData s"
  "compareKey (sbitsPut_index s n) = compareKey s"
  "dataFile (sbitsPut_index s n) = dataFile s"
  "startDataPage (sbitsPut_index s n) = startDataPage s"
  "endDataPage (sbitsPut_index s n) = endDataPage s"
  "firstDataPage (sbitsPut_index s n) = firstDataPage s"
  "firstDataPageId (sbitsPut_index s n) = firstDataPageId s"
  "erasedEndPage (sbitsPut_index s n) = erasedEndPage s"
  "nextPageId (sbitsPut_index s n) = nextPageId s"
  "nextPageWriteId (sbitsPut_index s n) = nextPageWriteId s"
  "wrappedMemory (sbitsPut_index s n) = wrappedMemory s"
  "minKey (sbitsPut_index s n) = minKey s"
  "maxError (sbitsPut_index s n) = maxError s"
  "bufferedPageId (sbitsPut_index s n) = bufferedPageId s"
  "wbuf (sbitsPut_index s n) = wbuf s"
  "rbuf (sbitsPut_index s n) = rbuf s"
  "varFile (sbitsPut_index s n) = varFile s"
  "currentVarLoc (sbitsPut_index s n) = currentVarLoc s"
  "minVarRecordId (sbitsPut_index s n) = minVarRecordId s"
  "numVarPages (sbitsPut_index s n) = numVarPages s"
  "numAvailVarPages (sbitsPut_index s n) = numAvailVarPages s"
  "nextVarPageId (sbitsPut_index s n) = nextVarPageId s"
  "recordHasVarData (sbitsPut_index s n) = recordHasVarData s"
  "bufferedVarPage (sbitsPut_index s n) = bufferedVarPage s"
  "varwbuf (sbitsPut_index s n) = varwbuf s"
  "varrbuf (sbitsPut_index s n) = varrbuf s"
  "spl (sbitsPut_index s n) = spl s"
  by (simp_all add: sbitsPut_index_def Let_def del: initBufferPage.simps)

lemma sbitsFlush_index_frame [simp]:
  "keySize (sbitsFlush_index s) = keySize s"
  "dataSize (sbitsFlush_index s) = dataSize s"
  "pageSize (sbitsFlush_index s) = pageSize s"
  "eraseSizeInPages (sbitsFlush_index s) = eraseSizeInPages s"
  "maxRecordsPerPage (sbitsFlush_index s) = maxRecordsPerPage s"
  "usingVData (sbitsFlush_index s) = usingVData s"
  "compareKey (sbitsFlush_index s) = compareKey s"
  "dataFile (sbitsFlush_index s) = dataFile s"
  "startDataPage (sbitsFlush_index s) = startDataPage s"
  "endDataPage (sbitsFlush_index s) = endDataPage s"
  "firstDataPage (sbitsFlush_index s) = firstDataPage s"
  "firstDataPageId (sbitsFlush_index s) = firstDataPageId s"
  "erasedEndPage (sbitsFlush_index s) = erasedEndPage s"
  "nextPageId (sbitsFlush_index s) = nextPageId s"
  "nextPageWriteId (sbitsFlush_index s) = nextPageWriteId s"
  "wrappedMemory (sbitsFlush_index s) = wrappedMemory s"
  "minKey (sbitsFlush_index s) = minKey s"
  "maxError (sbitsFlush_index s) = maxError s"
  "bufferedPageId (sbitsFlush_index s) = bufferedPageId s"
  "wbuf (sbitsFlush_index s) = wbuf s"
  "rbuf (sbitsFlush_index s) = rbuf s"
  "varFile (sbitsFlush_index s) = varFile s"
  "currentVarLoc (sbitsFlush_index s) = currentVarLoc s"
  "minVarRecordId (sbitsFlush_index s) = minVarRecordId s"
  "numVarPages (sbitsFlush_index s) = numVarPages s"
  "numAvailVarPages (sbitsFlush_index s) = numAvailVarPages s"
  "nextVarPageId (sbitsFlush_index s) = nextVarPageId s"
  "recordHasVarData (sbitsFlush_index s) = recordHasVarData s"
  "bufferedVarPage (sbitsFlush_index s) = bufferedVarPage s"
  "varwbuf (sbitsFlush_index s) = varwbuf s"
  "varrbuf (sbitsFlush_index s) = varrbuf s"
  "spl (sbitsFlush_index s) = spl s"
  by (simp_all add: sbitsFlush_index_def Let_def del: initBufferPage.simps)

lemma updateMaxiumError_frame [simp]:
  "keySize (updateMaxiumError x s b) = keySize s"
  "dataSize (updateMaxiumError x s b) = dataSize s"
  "pageSize (updateMaxiumError x s b) = pageSize s"
  "eraseSizeInPages (updateMaxiumError x s b) = eraseSizeInPages s"
  "maxRecordsPerPage (updateMaxiumError x s b) = maxRecordsPerPage s"
  "usingVData (updateMaxiumError x s b) = usingVData s"
  "compareKey (updateMaxiumError x s b) = compareKey s"
  "dataFile (updateMaxiumError x s b) = dataFile s"
  "startDataPage (updateMaxiumError x s b) = startDataPage s"
  "endDataPage (updateMaxiumError x s b) = endDataPage s"
  "firstDataPage (updateMaxiumError x s b) = firstDataPage s"
  "firstDataPageId (updateMaxiumError x s b) = firstDataPageId s"
  "erasedEndPage (updateMaxiumError x s b) = erasedEndPage s"
  "nextPageId (updateMaxiumError x s b) = nextPageId s"
  "nextPageWriteId (updateMaxiumError x s b) = nextPageWriteId s"
  "wrappedMemory (updateMaxiumError x s b) = wrappedMemory s"
  "minKey (updateMaxiumError x s b) = minKey s"
  "bufferedPageId (updateMaxiumError x s b) = bufferedPageId s"
  "wbuf (updateMaxiumError x s b) = wbuf s"
  "rbuf (updateMaxiumError x s b) = rbuf s"
  "varFile (updateMaxiumError x s b) = varFile s"
  "currentVarLoc (updateMaxiumError x s b) = currentVarLoc s"
  "minVarRecordId (updateMaxiumError x s b) = minVarRecordId s"
  "numVarPages (updateMaxiumError x s b) = numVarPages s"
  "numAvailVarPages (updateMaxiumError x s b) = numAvailVarPages s"
  "nextVarPageId (updateMaxiumError x s b) = nextVarPageId s"
  "recordHasVarData (updateMaxiumError x s b) = recordHasVarData s"
  "bufferedVarPage (updateMaxiumError x s b) = bufferedVarPage s"
  "varwbuf (updateMaxiumError x s b) = varwbuf s"
  "varrbuf (updateMaxiumError x s b) = varrbuf s"
  "spl (updateMaxiumError x s b) = spl s"
  "indexFile (updateMaxiumError x s b) = indexFile s"
  by (simp_all add: updateMaxiumError_def Let_def)

lemma updateAverageKeyDifference_changes:
  assumes "updateAverageKeyDifference s b = Some s'"
  shows "s' = s\<lparr>avgKeyDiff := avgKeyDiff (s')\<rparr>"
  using assms by (auto simp: updateAverageKeyDifference_def Let_def split: option.splits if_splits)

lemma updateAverageKeyDifference_frame:
  assumes "updateAverageKeyDifference s b = Some s'"
  shows "keySize (s') = keySize s"
    "dataSize (s') = dataSize s"
    "pageSize (s') = pageSize s"
    "eraseSizeInPages (s') = eraseSizeInPages s"
    "maxRecordsPerPage (s') = maxRecordsPerPage s"
    "usingVData (s') = usingVData s"
    "compareKey (s') = compareKey s"
    "dataFile (s') = dataFile s"
    "startDataPage (s') = startDataPage s"
    "endDataPage (s') = endDataPage s"
    "firstDataPage (s') = firstDataPage s"
    "firstDataPageId (s') = firstDataPageId s"
    "erasedEndPage (s') = erasedEndPage s"
    "nextPageId (s') = nextPageId s"
    "nextPageWriteId (s') = nextPageWriteId s"
    "wrappedMemory (s') = wrappedMemory s"
    "minKey (s') = minKey s"
    "maxError (s') = maxError s"
    "bufferedPageId (s') = bufferedPageId s"
    "wbuf (s') = wbuf s"
    "rbuf (s') = rbuf s"
    "varFile (s') = varFile s"
    "currentVarLoc (s') = currentVarLoc s"
    "minVarRecordId (s') = minVarRecordId s"
    "numVarPages (s') = numVarPages s"
    "numAvailVarPages (s') = numAvailVarPages s"
    "nextVarPageId (s') = nextVarPageId s"
    "recordHasVarData (s') = recordHasVarData s"
    "bufferedVarPage (s') = bufferedVarPage s"
    "varwbuf (s') = varwbuf s"
    "varrbuf (s') = varrbuf s"
    "spl (s') = spl s"
    "indexFile (s') = indexFile s"
  by (subst updateAverageKeyDifference_changes [OF assms], simp)+

lemma sbitsPut_record_changes:
  assumes "sbitsPut_record s c k d = Some s'"
  shows "s' = s\<lparr>wbuf := wbuf (s')\<rparr>"
  using assms by (auto simp: sbitsPut_record_def Let_def split: option.splits if_splits)

lemma sbitsPut_record_frame:
  assumes "sbitsPut_record s c k d = Some s'"
  shows "keySize (s') = keySize s"
    "dataSize (s') = dataSize s"
    "pageSize (s') = pageSize s"
    "eraseSizeInPages (s') = eraseSizeInPages s"
    "maxRecordsPerPage (s') = maxRecordsPerPage s"
    "usingVData (s') = usingVData s"
    "compareKey (s') = compareKey s"
    "dataFile (s') = dataFile s"
    "startDataPage (s') = startDataPage s"
    "endDataPage (s') = endDataPage s"
    "firstDataPage (s') = firstDataPage s"
    "firstDataPageId (s') = firstDataPageId s"
    "erasedEndPage (s') = erasedEndPage s"
    "nextPageId (s') = nextPageId s"
    "nextPageWriteId (s') = nextPageWriteId s"
    "wrappedMemory (s') = wrappedMemory s"
    "minKey (s') = minKey s"
    "maxError (s') = maxError s"
    "bufferedPageId (s') = bufferedPageId s"
    "rbuf (s') = rbuf s"
    "varFile (s') = varFile s"
    "currentVarLoc (s') = currentVarLoc s"
    "minVarRecordId (s') = minVarRecordId s"
    "numVarPages (s') = numVarPages s"
    "numAvailVarPages (s') = numAvailVarPages s"
    "nextVarPageId (s') = nextVarPageId s"
    "recordHasVarData (s') = recordHasVarData s"
    "bufferedVarPage (s') = bufferedVarPage s"
    "varwbuf (s') = varwbuf s"
    "varrbuf (s') = varrbuf s"
    "spl (s') = spl s"
    "indexFile (s') = indexFile s"
  by (subst sbitsPut_record_changes [OF assms], simp)+

lemma sbitsPut_header_frame [simp]:
  "keySize (sbitsPut_header s c k d) = keySize s"
  "dataSize (sbitsPut_header s c k d) = dataSize s"
  "pageSize (sbitsPut_header s c k d) = pageSize s"
  "eraseSizeInPages (sbitsPut_header s c k d) = eraseSizeInPages s"
  "maxRecordsPerPage (sbitsPut_header s c k d) = maxRecordsPerPage s"
  "usingVData (sbitsPut_header s c k d) = usingVData s"
  "compareKey (sbitsPut_header s c k d) = compareKey s"
  "dataFile (sbitsPut_header s c k d) = dataFile s"
  "startDataPage (sbitsPut_header s c k d) = startDataPage s"
  "endDataPage (sbitsPut_header s c k d) = endDataPage s"
  "firstDataPage (sbitsPut_header s c k d) = firstDataPage s"
  "firstDataPageId (sbitsPut_header s c k d) = firstDataPageId s"
  "erasedEndPage (sbitsPut_header s c k d) = erasedEndPage s"
  "nextPageId (sbitsPut_header s c k d) = nextPageId s"
  "nextPageWriteId (sbitsPut_header s c k d) = nextPageWriteId s"
  "wrappedMemory (sbitsPut_header s c k d) = wrappedMemory s"
  "maxError (sbitsPut_header s c k d) = maxError s"
  "bufferedPageId (sbitsPut_header s c k d) = bufferedPageId s"
  "rbuf (sbitsPut_header s c k d) = rbuf s"
  "varFile (sbitsPut_header s c k d) = varFile s"
  "currentVarLoc (sbitsPut_header s c k d) = currentVarLoc s"
  "minVarRecordId (sbitsPut_header s c k d) = minVarRecordId s"
  "numVarPages (sbitsPut_header s c k d) = numVarPages s"
  "numAvailVarPages (sbitsPut_header s c k d) = numAvailVarPages s"
  "nextVarPageId (sbitsPut_header s c k d) = nextVarPageId s"
  "recordHasVarData (sbitsPut_header s c k d) = recordHasVarData s"
  "bufferedVarPage (sbitsPut_header s c k d) = bufferedVarPage s"
  "varwbuf (sbitsPut_header s c k d) = varwbuf s"
  "varrbuf (sbitsPut_header s c k d) = varrbuf s"
  "spl (sbitsPut_header s c k d) = spl s"
  "indexFile (sbitsPut_header s c k d) = indexFile s"
  by (simp_all add: sbitsPut_header_def Let_def)

lemma readVariablePage_frame [simp]:
  "keySize (fst (readVariablePage s n)) = keySize s"
  "dataSize (fst (readVariablePage s n)) = dataSize s"
  "pageSize (fst (readVariablePage s n)) = pageSize s"
  "eraseSizeInPages (fst (readVariablePage s n)) = eraseSizeInPages s"
  "maxRecordsPerPage (fst (readVariablePage s n)) = maxRecordsPerPage s"
  "usingVData (fst (readVariablePage s n)) = usingVData s"
  "compareKey (fst (readVariablePage s n)) = compareKey s"
  "dataFile (fst (readVariablePage s n)) = dataFile s"
  "startDataPage (fst (readVariablePage s n)) = startDataPage s"
  "endDataPage (fst (readVariablePage s n)) = endDataPage s"
  "firstDataPage (fst (readVariablePage s n)) = firstDataPage s"
  "firstDataPageId (fst (readVariablePage s n)) = firstDataPageId s"
  "erasedEndPage (fst (readVariablePage s n)) = erasedEndPage s"
  "nextPageId (fst (readVariablePage s n)) = nextPageId s"
  "nextPageWriteId (fst (readVariablePage s n)) = nextPageWriteId s"
  "wrappedMemory (fst (readVariablePage s n)) = wrappedMemory s"
  "minKey (fst (readVariablePage s n)) = minKey s"
  "maxError (fst (readVariablePage s n)) = maxError s"
  "bufferedPageId (fst (readVariablePage s n)) = bufferedPageId s"
  "wbuf (fst (readVariablePage s n)) = wbuf s"
  "rbuf (fst (readVariablePage s n)) = rbuf s"
  "varFile (fst (readVariablePage s n)) = varFile s"
  "currentVarLoc (fst (readVariablePage s n)) = currentVarLoc s"
  "minVarRecordId (fst (readVariablePage s n)) = minVarRecordId s"
  "numVarPages (fst (readVariablePage s n)) = numVarPages s"
  "numAvailVarPages (fst (readVariablePage s n)) = numAvailVarPages s"
  "nextVarPageId (fst (readVariablePage s n)) = nextVarPageId s"
  "recordHasVarData (fst (readVariablePage s n)) = recordHasVarData s"
  "varwbuf (fst (readVariablePage s n)) = varwbuf s"
  "spl (fst (readVariablePage s n)) = spl s"
  "indexFile (fst (readVariablePage s n)) = indexFile s"
  by (simp_all add: readVariablePage_def split: option.splits)

lemma writeVariablePage_changes:
  assumes "writeVariablePage s = Some r"
  shows "fst r = s\<lparr>varrbuf := varrbuf (fst r), numReads := numReads (fst r), bufferedVarPage := bufferedVarPage (fst r), bufferHits := bufferHits (fst r), varFile := varFile (fst r), nextVarPageId := nextVarPageId (fst r), numAvailVarPages := numAvailVarPages (fst r), numWrites := numWrites (fst r), minVarRecordId := minVarRecordId (fst r)\<rparr>"
  using assms by (auto simp: writeVariablePage_def writeVariablePage_store_def readVariablePage_def Let_def split: option.splits if_splits prod.splits)

lemma writeVariablePage_frame:
  assumes "writeVariablePage s = Some r"
  shows "keySize (fst r) = keySize s"
    "dataSize (fst r) = dataSize s"
    "pageSize (fst r) = pageSize s"
    "eraseSizeInPages (fst r) = eraseSizeInPages s"
    "maxRecordsPerPage (fst r) = maxRecordsPerPage s"
    "usingVData (fst r) = usingVData s"
    "compareKey (fst r) = compareKey s"
    "dataFile (fst r) = dataFile s"
    "startDataPage (fst r) = startDataPage s"
    "endDataPage (fst r) = endDataPage s"
    "firstDataPage (fst r) = firstDataPage s"
    "firstDataPageId (fst r) = firstDataPageId s"
    "erasedEndPage (fst r) = erasedEndPage s"
    "nextPageId (fst r) = nextPageId s"
    "nextPageWriteId (fst r) = nextPageWriteId s"
    "wrappedMemory (fst r) = wrappedMemory s"
    "minKey (fst r) = minKey s"
    "maxError (fst r) = maxError s"
    "bufferedPageId (fst r) = bufferedPageId s"
    "wbuf (fst r) = wbuf s"
    "rbuf (fst r) = rbuf s"
    "currentVarLoc (fst r) = currentVarLoc s"
    "numVarPages (fst r) = numVarPages s"
    "recordHasVarData (fst r) = recordHasVarData s"
    "varwbuf (fst r) = varwbuf s"
    "spl (fst r) = spl s"
    "indexFile (fst r) = indexFile s"
  by (subst writeVariablePage_changes [OF assms], simp)+

lemma sbitsPutVar_nextPage_frame:
  assumes "sbitsPutVar_nextPage s k = Some s'"
  shows "keySize (s') = keySize s"
    "dataSize (s') = dataSize s"
    "pageSize (s') = pageSize s"
    "eraseSizeInPages (s') = eraseSizeInPages s"
    "maxRecordsPerPage (s') = maxRecordsPerPage s"
    "usingVData (s') = usingVData s"
    "compareKey (s') = compareKey s"
    "dataFile (s') = dataFile s"
    "startDataPage (s') = startDataPage s"
    "endDataPage (s') = endDataPage s"
    "firstDataPage (s') = firstDataPage s"
    "firstDataPageId (s') = firstDataPageId s"
    "erasedEndPage (s') = erasedEndPage s"
    "nextPageId (s') = nextPageId s"
    "nextPageWriteId (s') = nextPageWriteId s"
    "wrappedMemory (s') = wrappedMemory s"
    "minKey (s') = minKey s"
    "maxError (s') = maxError s"
    "bufferedPageId (s') = bufferedPageId s"
    "wbuf (s') = wbuf s"
    "rbuf (s') = rbuf s"
    "numVarPages (s') = numVarPages s"
    "recordHasVarData (s') = recordHasVarData s"
    "spl (s') = spl s"
    "indexFile (s') = indexFile s"
proof -
  from assms obtain r where r: "writeVariablePage s = Some r"
    and s': "s' = (let s1 = initBufferPage (fst r) VAR_WRITE_BUFFER;
                       s2 = s1\<lparr>varwbuf := put_le (varwbuf s1) 0 (keySize s1) k\<rparr>
                   in s2\<lparr>currentVarLoc := currentVarLoc s2 + keySize s2\<rparr>)"
    by (auto simp: sbitsPutVar_nextPage_def split: option.splits)
  show "keySize (s') = keySize s"
    "dataSize (s') = dataSize s"
    "pageSize (s') = pageSize s"
    "eraseSizeInPages (s') = eraseSizeInPages s"
    "maxRecordsPerPage (s') = maxRecordsPerPage s"
    "usingVData (s') = usingVData s"
    "compareKey (s') = compareKey s"
    "dataFile (s') = dataFile s"
    "startDataPage (s') = startDataPage s"
    "endDataPage (s') = endDataPage s"
    "firstDataPage (s') = firstDataPage s"
    "firstDataPageId (s') = firstDataPageId s"
    "erasedEndPage (s') = erasedEndPage s"
    "nextPageId (s') = nextPageId s"
    "nextPageWriteId (s') = nextPageWriteId s"
    "wrappedMemory (s') = wrappedMemory s"
    "minKey (s') = minKey s"
    "maxError (s') = maxError s"
    "bufferedPageId (s') = bufferedPageId s"
    "wbuf (s') = wbuf s"
    "rbuf (s') = rbuf s"
    "numVarPages (s') = numVarPages s"
    "recordHasVarData (s') = recordHasVarData s"
    "spl (s') = spl s"
    "indexFile (s') = indexFile s"
    unfolding s' Let_def by (simp_all add: writeVariablePage_frame [OF r])
qed

lemma sbitsPutVar_advance_frame_all:
  assumes "sbitsPutVar_advance s = Some s'"
  shows "keySize s' = keySize s \<and> dataSize s' = dataSize s \<and> pageSize s' = pageSize s \<and> eraseSizeInPages s' = eraseSizeInPages s \<and> maxRecordsPerPage s' = maxRecordsPerPage s \<and> usingVData s' = usingVData s \<and> compareKey s' = compareKey s \<and> dataFile s' = dataFile s \<and> startDataPage s' = startDataPage s \<and> endDataPage s' = endDataPage s \<and> firstDataPage s' = firstDataPage s \<and> firstDataPageId s' = firstDataPageId s \<and> erasedEndPage s' = erasedEndPage s \<and> nextPageId s' = nextPageId s \<and> nextPageWriteId s' = nextPageWriteId s \<and> wrappedMemory s' = wrappedMemory s \<and> minKey s' = minKey s \<and> maxError s' = maxError s \<and> bufferedPageId s' = bufferedPageId s \<and> wbuf s' = wbuf s \<and> rbuf s' = rbuf s \<and> numVarPages s' = numVarPages s \<and> recordHasVarData s' = recordHasVarData s \<and> spl s' = spl s \<and> indexFile s' = indexFile s"
proof -
  from assms consider (same) "s' = s"
    | (next_page) r where "writeVariablePage s = Some r"
        "s' = (let s1 = initBufferPage (fst r) VAR_WRITE_BUFFER
               in s1\<lparr>currentVarLoc := currentVarLoc s1
                       + (pageSize s1 - currentVarLoc s1 mod pageSize s1) + keySize s1\<rparr>)"
    by (auto simp: sbitsPutVar_advance_def split: option.splits if_splits)
  then show ?thesis
  proof cases
    case same
    then show ?thesis by simp
  next
    case next_page
    show ?thesis
      unfolding next_page(2) Let_def
      by (simp add: writeVariablePage_frame [OF next_page(1)])
  qed
qed

lemma sbitsPutVar_advance_frame:
  assumes "sbitsPutVar_advance s = Some s'"
  shows "keySize s' = keySize s"
    "dataSize s' = dataSize s"
    "pageSize s' = pageSize s"
    "eraseSizeInPages s' = eraseSizeInPages s"
    "maxRecordsPerPage s' = maxRecordsPerPage s"
    "usingVData s' = usingVData s"
    "compareKey s' = compareKey s"
    "dataFile s' = dataFile s"
    "startDataPage s' = startDataPage s"
    "endDataPage s' = endDataPage s"
    "firstDataPage s' = firstDataPage s"
    "firstDataPageId s' = firstDataPageId s"
    "erasedEndPage s' = erasedEndPage s"
    "nextPageId s' = nextPageId s"
    "nextPageWriteId s' = nextPageWriteId s"
    "wrappedMemory s' = wrappedMemory s"
    "minKey s' = minKey s"
    "maxError s' = maxError s"
    "bufferedPageId s' = bufferedPageId s"
    "wbuf s' = wbuf s"
    "rbuf s' = rbuf s"
    "numVarPages s' = numVarPages s"
    "recordHasVarData s' = recordHasVarData s"
    "spl s' = spl s"
    "indexFile s' = indexFile s"
  using sbitsPutVar_advance_frame_all [OF assms] by simp_all

lemma readPage_frame [simp]:
  "keySize (fst (readPage s n)) = keySize s"
  "dataSize (fst (readPage s n)) = dataSize s"
  "pageSize (fst (readPage s n)) = pageSize s"
  "eraseSizeInPages (fst (readPage s n)) = eraseSizeInPages s"
  "maxRecordsPerPage (fst (readPage s n)) = maxRecordsPerPage s"
  "usingVData (fst (readPage s n)) = usingVData s"
  "compareKey (fst (readPage s n)) = compareKey s"
  "dataFile (fst (readPage s n)) = dataFile s"
  "startDataPage (fst (readPage s n)) = startDataPage s"
  "endDataPage (fst (readPage s n)) = endDataPage s"
  "firstDataPage (fst (readPage s n)) = firstDataPage s"
  "firstDataPageId (fst (readPage s n)) = firstDataPageId s"
  "erasedEndPage (fst (readPage s n)) = erasedEndPage s"
  "nextPageId (fst (readPage s n)) = nextPageId s"
  "nextPageWriteId (fst (readPage s n)) = nextPageWriteId s"
  "wrappedMemory (fst (readPage s n)) = wrappedMemory s"
  "minKey (fst (readPage s n)) = minKey s"
  "maxError (fst (readPage s n)) = maxError s"
  "wbuf (fst (readPage s n)) = wbuf s"
  "varFile (fst (readPage s n)) = varFile s"
  "currentVarLoc (fst (readPage s n)) = currentVarLoc s"
  "minVarRecordId (fst (readPage s n)) = minVarRecordId s"
  "numVarPages (fst (readPage s n)) = numVarPages s"
  "numAvailVarPages (fst (readPage s n)) = numAvailVarPages s"
  "nextVarPageId (fst (readPage s n)) = nextVarPageId s"
  "recordHasVarData (fst (readPage s n)) = recordHasVarData s"
  "bufferedVarPage (fst (readPage s n)) = bufferedVarPage s"
  "varwbuf (fst (readPage s n)) = varwbuf s"
  "varrbuf (fst (readPage s n)) = varrbuf s"
  "spl (fst (readPage s n)) = spl s"
  "indexFile (fst (readPage s n)) = indexFile s"
  by (simp_all add: readPage_def split: option.splits)

subsection \<open>Writing a data page\<close>

lemma writePage_snd: "snd (writePage s) = (if dataFile s = None then ID_MINUS_ONE else nextPageId s)"
  by (simp add: writePage_def split: option.splits)

lemma writePage_None: "dataFile s = None \<Longrightarrow> fst (writePage s) = s"
  by (simp add: writePage_def)

lemma writePage_nextPageId:
  "nextPageId (fst (writePage s)) = (if dataFile s = None then nextPageId s else nextPageId s + 1)"
  by (simp add: writePage_def writePage_stamp_def Let_def split: option.splits)

lemma writePage_wbuf:
  "wbuf (fst (writePage s))
     = (if dataFile s = None then wbuf s else (wbuf s)\<lparr>pg_id := nextPageId s\<rparr>)"
  by (simp add: writePage_def writePage_stamp_def Let_def split: option.splits)

lemma writePage_wrap_pos:
  "nextPageWriteId (writePage_wrap s) = writePage_pos s"
  by (simp add: writePage_wrap_def writePage_pos_def Let_def)

lemma writePage_pos_erase: "writePage_pos (writePage_erase s) = writePage_pos s"
  by (simp add: writePage_pos_def)

lemma writePage_pos_stamp: "writePage_pos (writePage_stamp s) = writePage_pos s"
  by (simp add: writePage_pos_def)

lemma writePage_dataFile:
  "dataFile s = Some f \<Longrightarrow>
     dataFile (fst (writePage s))
       = Some (f(writePage_pos s \<mapsto> (wbuf s)\<lparr>pg_id := nextPageId s\<rparr>))"
  by (simp add: writePage_def writePage_store_def Let_def writePage_wrap_pos
      writePage_pos_erase writePage_pos_stamp, simp add: writePage_stamp_def Let_def)

lemma writePage_nextPageWriteId:
  "dataFile s \<noteq> None \<Longrightarrow> nextPageWriteId (fst (writePage s)) = writePage_pos s + 1"
  by (auto simp add: writePage_def writePage_store_def Let_def writePage_wrap_pos
      writePage_pos_erase writePage_pos_stamp)

subsection \<open>Inserting a record\<close>

lemma init_page_cong:
  "keySize a = keySize b \<Longrightarrow> dataSize a = dataSize b \<Longrightarrow> init_page a = init_page b"
  by (simp add: init_page_def)

lemma sbitsPut_index_wbuf_count [simp]:
  "pg_count (wbuf (fst (writePage s))) = pg_count (wbuf s)"
  by (simp add: writePage_wbuf)


lemma sbitsPut_full_effect:
  assumes "sbitsPut_full x s = Some s1"
  shows "wbuf s1 = init_page s"
    "keySize s1 = keySize s" "dataSize s1 = dataSize s" "pageSize s1 = pageSize s"
    "eraseSizeInPages s1 = eraseSizeInPages s" "maxRecordsPerPage s1 = maxRecordsPerPage s"
    "usingVData s1 = usingVData s" "compareKey s1 = compareKey s"
    "startDataPage s1 = startDataPage s" "endDataPage s1 = endDataPage s"
    "bufferedPageId s1 = bufferedPageId s" "rbuf s1 = rbuf s"
    "varFile s1 = varFile s" "currentVarLoc s1 = currentVarLoc s"
    "minVarRecordId s1 = minVarRecordId s" "numVarPages s1 = numVarPages s"
    "numAvailVarPages s1 = numAvailVarPages s" "nextVarPageId s1 = nextVarPageId s"
    "recordHasVarData s1 = recordHasVarData s" "bufferedVarPage s1 = bufferedVarPage s"
    "varwbuf s1 = varwbuf s" "varrbuf s1 = varrbuf s"
    "dataFile s1 = dataFile (fst (writePage s))"
    "nextPageId s1 = nextPageId (fst (writePage s))"
    "nextPageWriteId s1 = nextPageWriteId (fst (writePage s))"
    "erasedEndPage s1 = erasedEndPage (fst (writePage s))"
    "firstDataPage s1 = firstDataPage (fst (writePage s))"
    "firstDataPageId s1 = firstDataPageId (fst (writePage s))"
    "wrappedMemory s1 = wrappedMemory (fst (writePage s))"
    "minKey s1 = minKey (fst (writePage s))"
    "spl s1 = spl s @ [(sbitsGetMinKey (wbuf (fst (writePage s))), snd (writePage s))]"
proof -
  let ?s3 = "sbitsPut_index (indexPage (fst (writePage s)) (snd (writePage s)))
               (snd (writePage s))"
  from assms obtain s4 where u: "updateAverageKeyDifference ?s3 (wbuf ?s3) = Some s4"
    and e: "s1 = initBufferPage (updateMaxiumError x s4 (wbuf s4)) DATA_WRITE_BUFFER"
    by (auto simp: sbitsPut_full_def Let_def split: option.splits simp del: initBufferPage.simps)
  note f = updateAverageKeyDifference_frame [OF u]
  have k: "keySize (updateMaxiumError x s4 (wbuf s4)) = keySize s"
    "dataSize (updateMaxiumError x s4 (wbuf s4)) = dataSize s"
    by (simp_all add: f)
  show "wbuf s1 = init_page s"
    unfolding e by (simp add: init_page_cong [OF k])
  show "keySize s1 = keySize s" "dataSize s1 = dataSize s" "pageSize s1 = pageSize s"
    "eraseSizeInPages s1 = eraseSizeInPages s" "maxRecordsPerPage s1 = maxRecordsPerPage s"
    "usingVData s1 = usingVData s" "compareKey s1 = compareKey s"
    "startDataPage s1 = startDataPage s" "endDataPage s1 = endDataPage s"
    "bufferedPageId s1 = bufferedPageId s" "rbuf s1 = rbuf s"
    "varFile s1 = varFile s" "currentVarLoc s1 = currentVarLoc s"
    "minVarRecordId s1 = minVarRecordId s" "numVarPages s1 = numVarPages s"
    "numAvailVarPages s1 = numAvailVarPages s" "nextVarPageId s1 = nextVarPageId s"
    "recordHasVarData s1 = recordHasVarData s" "bufferedVarPage s1 = bufferedVarPage s"
    "varwbuf s1 = varwbuf s" "varrbuf s1 = varrbuf s"
    "dataFile s1 = dataFile (fst (writePage s))"
    "nextPageId s1 = nextPageId (fst (writePage s))"
    "nextPageWriteId s1 = nextPageWriteId (fst (writePage s))"
    "erasedEndPage s1 = erasedEndPage (fst (writePage s))"
    "firstDataPage s1 = firstDataPage (fst (writePage s))"
    "firstDataPageId s1 = firstDataPageId (fst (writePage s))"
    "wrappedMemory s1 = wrappedMemory (fst (writePage s))"
    "minKey s1 = minKey (fst (writePage s))"
    unfolding e by (simp_all add: f del: initBufferPage.simps)
  show "spl s1 = spl s @ [(sbitsGetMinKey (wbuf (fst (writePage s))), snd (writePage s))]"
    unfolding e by (simp add: f indexPage_def del: initBufferPage.simps)
qed


lemma sbitsPut_record_effect:
  assumes "sbitsPut_record s c k d = Some s'"
  shows "pg_count (wbuf s') = pg_count (wbuf s) + 1"
    "r_key (pg_recs (wbuf s') c) = k" "r_data (pg_recs (wbuf s') c) = d"
    "i \<noteq> c \<Longrightarrow> pg_recs (wbuf s') i = pg_recs (wbuf s) i"
    "pg_id (wbuf s') = pg_id (wbuf s)"
  using assms
  by (auto simp: sbitsPut_record_def Let_def split: option.splits if_splits)

lemma sbitsPut_header_wbuf:
  "pg_count (wbuf (sbitsPut_header s c k d)) = pg_count (wbuf s)"
  "pg_recs (wbuf (sbitsPut_header s c k d)) = pg_recs (wbuf s)"
  "pg_id (wbuf (sbitsPut_header s c k d)) = pg_id (wbuf s)"
  by (simp_all add: sbitsPut_header_def Let_def)

subsection \<open>The two cases of \<^verbatim>\<open>sbitsPut\<close>\<close>

text \<open>The conditions under which \<^verbatim>\<open>sbitsPut\<close> divides by zero are excluded by: a page
  holds at least one record, and the variable-data storage is not empty when the record
  carries a blob.\<close>

lemma sbitsPut_room:
  assumes "pg_count (wbuf s) < maxRecordsPerPage s"
  shows "sbitsPut x s key data
           = (case sbitsPut_record s (pg_count (wbuf s)) key data of
                None \<Rightarrow> None
              | Some s2 \<Rightarrow> Some (sbitsPut_header s2 (pg_count (wbuf s)) key data, 0))"
  using assms by (simp add: sbitsPut_def Let_def)

lemma sbitsPut_full_case:
  assumes "maxRecordsPerPage s \<le> pg_count (wbuf s)"
  shows "sbitsPut x s key data
           = (case sbitsPut_full x s of
                None \<Rightarrow> None
              | Some s1 \<Rightarrow>
                  (case sbitsPut_record s1 0 key data of
                     None \<Rightarrow> None
                   | Some s2 \<Rightarrow> Some (sbitsPut_header s2 0 key data, 0)))"
  using assms by (simp add: sbitsPut_def Let_def)







subsection \<open>The small store\<close>

lemma small_store_facts:
  "maxRecordsPerPage small_store = 2" "eraseSizeInPages small_store = 1"
  "endDataPage small_store = 3" "startDataPage small_store = 0"
  "nextPageId small_store = 0" "nextPageWriteId small_store = 0"
  "erasedEndPage small_store = 0" "firstDataPage small_store = 0"
  "firstDataPageId small_store = 0" "wrappedMemory small_store = 0"
  "usingVData small_store = False" "indexFile small_store = None"
  "dataFile small_store = Some Map.empty" "pg_count (wbuf small_store) = 0"
  "bufferedPageId small_store = -1" "keySize small_store = 4" "pageSize small_store = 22"
  "compareKey small_store = int32Comparator" "spl small_store = []"
  "maxError small_store = 2"
  by (simp_all add: small_store_def sbitsInit_def sbitsInit_sizes_def sbitsInit_files_def
      small_params_def blank_state_def cdiv_def sbitsInitData_def resetStats_def
      init_page_def Let_def)






lemma stale_store_facts:
  "nextPageId stale_store = 1" "endDataPage stale_store = 3"
  "bufferedPageId stale_store = -1" "dataFile stale_store = Some (Map.empty(0 \<mapsto> stale_page))"
  "compareKey stale_store = int32Comparator" "maxError stale_store = 2"
  "usingVData stale_store" "minVarRecordId stale_store = 6" "spl stale_store = []"
  by (simp_all add: stale_store_def var_store_def small_store_facts)

lemma stale_page_facts:
  "pg_count stale_page = 1" "pg_recs stale_page 0 = \<lparr>r_key = 5, r_data = 50, r_var = 4\<rparr>"
  by (simp_all add: stale_page_def blank_page_def)

lemma int32Comparator_small:
  assumes "a < 2147483648" and "b < 2147483648"
  shows "int32Comparator a b = (if a < b then -1 else if a = b then 0 else 1)"
proof -
  have "to_int32 a = int a" "to_int32 b = int b"
    using assms by (simp_all add: to_int32_def)
  moreover have "to_int32 (to_id (int a - int b)) = int a - int b"
  proof (cases "a < b")
    case True
    have "(int a - int b) mod 4294967296 = (int a - int b + 4294967296) mod 4294967296"
      by simp
    also have "\<dots> = int a - int b + 4294967296"
      using True assms by (intro mod_pos_pos_trivial) simp_all
    finally show ?thesis
      using True assms by (simp add: to_int32_def to_id_def)
  next
    case False
    then have "(int a - int b) mod 4294967296 = int a - int b"
      using assms by (intro mod_pos_pos_trivial) simp_all
    then show ?thesis
      using False assms by (simp add: to_int32_def to_id_def)
  qed
  ultimately show ?thesis
    by (simp add: int32Comparator_def Let_def)
qed

subsection \<open>Variable data\<close>





subsection \<open>Reading a data page\<close>

lemma readPage_miss:
  assumes "int n \<noteq> bufferedPageId s" and "dataFile s = Some f" and "f n = Some p"
  shows "snd (readPage s n) = 0" "rbuf (fst (readPage s n)) = p"
    "bufferedPageId (fst (readPage s n)) = int n"
  using assms by (simp_all add: readPage_def)

lemma readPage_hit:
  assumes "int n = bufferedPageId s"
  shows "snd (readPage s n) = 0" "rbuf (fst (readPage s n)) = rbuf s"
    "bufferedPageId (fst (readPage s n)) = int n"
  using assms by (simp_all add: readPage_def)

lemma readPage_fail:
  assumes "int n \<noteq> bufferedPageId s" and "dataFile s = Some f" and "f n = None"
  shows "readPage s n = (s, 1)"
  using assms by (simp add: readPage_def)

text \<open>One round of \<^verbatim>\<open>linearSearch\<close>, by cases on the page that is read.\<close>

lemma linearSearch_step_read:
  assumes "0 < endDataPage s" and "low \<le> pageId" and "pageId \<le> high"
  shows "linearSearch_step s key pageId low high =
     (let r = readPage s (to_id pageId mod endDataPage s); s1 = fst r in
      if snd r \<noteq> 0 then Some (LS_Return s1 (-1))
      else if compareKey s key (sbitsGetMinKey (rbuf s1)) < 0 then Some (LS_Lower s1)
      else (case sbitsGetMaxKey (rbuf s1) of
              None \<Rightarrow> None
            | Some maxKey \<Rightarrow>
                if compareKey s key maxKey > 0 then Some (LS_Higher s1)
                else Some (LS_Return s1 0)))"
  using assms by (simp add: linearSearch_step_def Let_def split_beta cong: option.case_cong)

lemma linearSearch_found:
  assumes "0 < endDataPage s" and "low \<le> pageId" and "pageId \<le> high"
    and "snd (readPage s (to_id pageId mod endDataPage s)) = 0"
    and "\<not> compareKey s key
             (sbitsGetMinKey (rbuf (fst (readPage s (to_id pageId mod endDataPage s))))) < 0"
    and "sbitsGetMaxKey (rbuf (fst (readPage s (to_id pageId mod endDataPage s)))) = Some m"
    and "\<not> compareKey s key m > 0"
  shows "linearSearch s key pageId low high
           = Some (fst (readPage s (to_id pageId mod endDataPage s)), 0)"
  using assms
  by (subst linearSearch.simps) (simp add: linearSearch_step_read Let_def)

lemma sbitsSearchNode_loop_hit:
  assumes "first \<le> lastI" and "0 \<le> middle"
    and "compareKey s (r_key (pg_recs buffer (nat middle))) key = 0"
  shows "sbitsSearchNode_loop s buffer key first lastI middle = Some (True, middle)"
  using assms by (subst sbitsSearchNode_loop.simps) (simp add: Let_def)

subsection \<open>The layout after a page is written\<close>

lemma writePage_layout:
  assumes "dataFile s \<noteq> None"
  shows "wrappedMemory (fst (writePage s))
           = (if endDataPage s \<le> nextPageWriteId s then 1 else wrappedMemory s)"
    "erasedEndPage (fst (writePage s))
       = (if endDataPage s \<le> nextPageWriteId s then startDataPage s + eraseSizeInPages s - 1
          else if erasedEndPage s \<le> nextPageWriteId s
                  \<and> nextPageWriteId s + eraseSizeInPages s < endDataPage s
          then (if erasedEndPage s \<noteq> 0 then erasedEndPage s + eraseSizeInPages s
                else erasedEndPage s + eraseSizeInPages s - 1)
          else erasedEndPage s)"
    "firstDataPage (fst (writePage s))
       = (if endDataPage s \<le> nextPageWriteId s
          then startDataPage s + eraseSizeInPages s - 1 + 1
          else if erasedEndPage s \<le> nextPageWriteId s
                  \<and> nextPageWriteId s + eraseSizeInPages s < endDataPage s
                  \<and> wrappedMemory s \<noteq> 0
          then (if erasedEndPage s \<noteq> 0 then erasedEndPage s + eraseSizeInPages s
                else erasedEndPage s + eraseSizeInPages s - 1) + 1
          else firstDataPage s)"
    "firstDataPageId (fst (writePage s))
       = (if endDataPage s \<le> nextPageWriteId s then firstDataPageId s + eraseSizeInPages s
          else if erasedEndPage s \<le> nextPageWriteId s
                  \<and> nextPageWriteId s + eraseSizeInPages s < endDataPage s
                  \<and> wrappedMemory s \<noteq> 0
          then firstDataPageId s + eraseSizeInPages s
          else firstDataPageId s)"
proof -
  from assms obtain f where f: "dataFile s = Some f" by auto
  let ?t = "writePage_stamp s"
  have w: "fst (writePage s) = writePage_store (writePage_wrap (writePage_erase ?t)) f"
    by (simp add: writePage_def f)
  have e: "wrappedMemory (writePage_erase ?t) = wrappedMemory s"
    "nextPageWriteId (writePage_erase ?t) = nextPageWriteId s"
    by simp_all
  have ee: "erasedEndPage (writePage_erase ?t)
       = (if erasedEndPage s \<le> nextPageWriteId s
             \<and> nextPageWriteId s + eraseSizeInPages s < endDataPage s
          then (if erasedEndPage s \<noteq> 0 then erasedEndPage s + eraseSizeInPages s
                else erasedEndPage s + eraseSizeInPages s - 1)
          else erasedEndPage s)"
    by (simp add: writePage_erase_def Let_def)
  have ef: "firstDataPage (writePage_erase ?t)
       = (if erasedEndPage s \<le> nextPageWriteId s
             \<and> nextPageWriteId s + eraseSizeInPages s < endDataPage s
             \<and> wrappedMemory s \<noteq> 0
          then (if erasedEndPage s \<noteq> 0 then erasedEndPage s + eraseSizeInPages s
                else erasedEndPage s + eraseSizeInPages s - 1) + 1
          else firstDataPage s)"
    by (simp add: writePage_erase_def Let_def)
  have ei: "firstDataPageId (writePage_erase ?t)
       = (if erasedEndPage s \<le> nextPageWriteId s
             \<and> nextPageWriteId s + eraseSizeInPages s < endDataPage s
             \<and> wrappedMemory s \<noteq> 0
          then firstDataPageId s + eraseSizeInPages s
          else firstDataPageId s)"
    by (simp add: writePage_erase_def Let_def)
  show "wrappedMemory (fst (writePage s))
           = (if endDataPage s \<le> nextPageWriteId s then 1 else wrappedMemory s)"
    unfolding w by (simp, simp add: writePage_wrap_def Let_def)
  show "erasedEndPage (fst (writePage s))
       = (if endDataPage s \<le> nextPageWriteId s then startDataPage s + eraseSizeInPages s - 1
          else if erasedEndPage s \<le> nextPageWriteId s
                  \<and> nextPageWriteId s + eraseSizeInPages s < endDataPage s
          then (if erasedEndPage s \<noteq> 0 then erasedEndPage s + eraseSizeInPages s
                else erasedEndPage s + eraseSizeInPages s - 1)
          else erasedEndPage s)"
    unfolding w by (simp, simp add: writePage_wrap_def Let_def ee)
  show "firstDataPage (fst (writePage s))
       = (if endDataPage s \<le> nextPageWriteId s
          then startDataPage s + eraseSizeInPages s - 1 + 1
          else if erasedEndPage s \<le> nextPageWriteId s
                  \<and> nextPageWriteId s + eraseSizeInPages s < endDataPage s
                  \<and> wrappedMemory s \<noteq> 0
          then (if erasedEndPage s \<noteq> 0 then erasedEndPage s + eraseSizeInPages s
                else erasedEndPage s + eraseSizeInPages s - 1) + 1
          else firstDataPage s)"
    unfolding w by (simp, simp add: writePage_wrap_def Let_def ef)
  show "firstDataPageId (fst (writePage s))
       = (if endDataPage s \<le> nextPageWriteId s then firstDataPageId s + eraseSizeInPages s
          else if erasedEndPage s \<le> nextPageWriteId s
                  \<and> nextPageWriteId s + eraseSizeInPages s < endDataPage s
                  \<and> wrappedMemory s \<noteq> 0
          then firstDataPageId s + eraseSizeInPages s
          else firstDataPageId s)"
    unfolding w by (simp, simp add: writePage_wrap_def Let_def ei)
qed

subsection \<open>What a call does to the data storage\<close>

declare linearSearch.simps [simp del] sbitsSearchNode_loop.simps [simp del]
  sbitsPutVar_loop.simps [simp del] sbitsGetVar_loop.simps [simp del]

lemma same_data_refl [simp]: "same_data s s"
  by (simp add: same_data_def)

lemma same_data_trans: "same_data s t \<Longrightarrow> same_data t u \<Longrightarrow> same_data s u"
  by (simp add: same_data_def)

lemma same_store_refl [simp]: "same_store s s"
  by (simp add: same_store_def)

lemma same_store_trans: "same_store s t \<Longrightarrow> same_store t u \<Longrightarrow> same_store s u"
  by (simp add: same_store_def same_data_def)

lemma same_store_data: "same_store s t \<Longrightarrow> same_data t u \<Longrightarrow> same_data s u"
  by (simp add: same_store_def same_data_def)

lemma same_data_store: "same_data s t \<Longrightarrow> same_store t u \<Longrightarrow> same_data s u"
  by (simp add: same_store_def same_data_def)

lemma same_store_readPage [simp]: "same_store s (fst (readPage s n))"
  by (simp add: same_store_def same_data_def)

lemma same_store_readVariablePage [simp]: "same_store s (fst (readVariablePage s n))"
  by (simp add: same_store_def same_data_def)

lemma linearSearch_step_store:
  assumes "linearSearch_step s key pageId low high = Some res"
  shows "case res of LS_Return s1 r \<Rightarrow> same_store s s1 | LS_Lower s1 \<Rightarrow> same_store s s1
           | LS_Higher s1 \<Rightarrow> same_store s s1"
proof -
  have rp: "readPage s n = (s1, r) \<Longrightarrow> same_store s s1" for n s1 r
    using same_store_readPage [of s n] by simp
  from assms show ?thesis
    by (auto simp: linearSearch_step_def Let_def intro: rp
        split: if_splits prod.splits option.splits)
qed

lemma linearSearch_store:
  "linearSearch s key pageId low high = Some (s', r) \<Longrightarrow> same_store s s'"
proof (induction s key pageId low high rule: linearSearch.induct)
  case (1 s key pageId low high)
  from "1.prems" have eq:
    "(case linearSearch_step s key pageId low high of
        None \<Rightarrow> None
      | Some (LS_Return s1 r) \<Rightarrow> Some (s1, r)
      | Some (LS_Lower s1) \<Rightarrow> linearSearch s1 key (pageId - 1) low (pageId - 1)
      | Some (LS_Higher s1) \<Rightarrow> linearSearch s1 key (pageId + 1) (pageId + 1) high)
     = Some (s', r)"
    by (simp only: linearSearch.simps [of s key pageId low high])
  then obtain res where res: "linearSearch_step s key pageId low high = Some res"
    by (cases "linearSearch_step s key pageId low high") auto
  note st = linearSearch_step_store [OF res]
  show ?case
  proof (cases res)
    case (LS_Return s1 r1)
    with eq res st show ?thesis by simp
  next
    case (LS_Lower s1)
    with eq res have "linearSearch s1 key (pageId - 1) low (pageId - 1) = Some (s', r)"
      by simp
    from "1.IH"(1) [OF res LS_Lower this] st LS_Lower show ?thesis
      by (auto intro: same_store_trans)
  next
    case (LS_Higher s1)
    with eq res have "linearSearch s1 key (pageId + 1) (pageId + 1) high = Some (s', r)"
      by simp
    from "1.IH"(2) [OF res LS_Higher this] st LS_Higher show ?thesis
      by (auto intro: same_store_trans)
  qed
qed

lemma sbitsGet_store:
  assumes "sbitsGet x s key = Some (s', r, d)"
  shows "same_store s s'"
proof (cases "nextPageId s = 0 \<and> wrappedMemory s = 0")
  case True
  with assms show ?thesis by (simp add: sbitsGet_def)
next
  case False
  obtain location lowbound highbound where
    sp: "splineFind x (spl s) key = (location, lowbound, highbound)"
    by (cases "splineFind x (spl s) key") auto
  from assms False sp obtain s1 r1 where
    ls: "linearSearch s key (to_int32 location) (to_int32 lowbound) (to_int32 highbound)
           = Some (s1, r1)" and s': "s' = s1"
    by (auto simp: sbitsGet_def split: option.splits if_splits)
  from linearSearch_store [OF ls] s' show ?thesis by simp
qed

lemma sbitsGetVar_loop_store:
  "sbitsGetVar_loop s pageNum bufPos dataLength amtRead acc = Some (s', r, blob)
     \<Longrightarrow> same_store s s'"
proof (induction s pageNum bufPos dataLength amtRead acc rule: sbitsGetVar_loop.induct)
  case (1 s pageNum bufPos dataLength amtRead acc)
  let ?n = "(pageNum + 1) mod numVarPages s"
  let ?a = "min (dataLength - amtRead) (pageSize s - bufPos)"
  let ?acc = "acc @ map (varrbuf s) [bufPos ..< bufPos + ?a]"
  note eq = "1.prems" [unfolded sbitsGetVar_loop.simps [of s pageNum bufPos dataLength amtRead acc]]
  show ?case
  proof (cases "amtRead < dataLength \<and> amtRead + ?a \<noteq> dataLength
                 \<and> snd (readVariablePage s ?n) = 0")
    case True
    with eq have ok: "\<not> (pageSize s \<le> bufPos \<or> numVarPages s = 0)"
      by (auto split: if_splits)
    from True eq ok have rec: "sbitsGetVar_loop (fst (readVariablePage s ?n)) ?n (keySize s)
        dataLength (amtRead + ?a) ?acc = Some (s', r, blob)"
      by (simp add: Let_def split_beta)
    have "same_store (fst (readVariablePage s ?n)) s'"
      using True ok rec
      by (intro "1.IH" [of ?a ?acc "fst (readVariablePage s ?n)" "snd (readVariablePage s ?n)"])
         (simp_all add: Let_def prod_eq_iff)
    then show ?thesis
      using same_store_readVariablePage [of s ?n] by (blast intro: same_store_trans)
  next
    case False
    with eq have "s' = s \<or> s' = fst (readVariablePage s ?n)"
      by (auto simp: Let_def split_beta split: if_splits)
    then show ?thesis by auto
  qed
qed

lemma sbitsGetVar_store:
  assumes "sbitsGetVar x s key = Some (s', r, d, v, n)"
  shows "same_store s s'"
proof -
  from assms obtain s1 r1 d1 where g: "sbitsGet x s key = Some (s1, r1, d1)"
    by (auto simp: sbitsGetVar_def split: option.splits)
  note g1 = sbitsGet_store [OF g]
  have rv: "readVariablePage t m = (t1, q) \<Longrightarrow> same_store t t1" for t m t1 q
    using same_store_readVariablePage [of t m] by simp
  have "same_store s1 s'"
    using assms
    by (auto simp: sbitsGetVar_def g Let_def
        split: option.splits if_splits prod.splits
        dest!: rv sbitsGetVar_loop_store intro: same_store_trans)
  with g1 show ?thesis
    by (rule same_store_trans)
qed

lemma sbitsPutVar_nextPage_store:
  assumes "sbitsPutVar_nextPage s key = Some s'"
  shows "same_store s s'"
  by (simp add: same_store_def same_data_def sbitsPutVar_nextPage_frame [OF assms])

lemma sbitsPutVar_advance_store:
  assumes "sbitsPutVar_advance s = Some s'"
  shows "same_store s s'"
  by (simp add: same_store_def same_data_def sbitsPutVar_advance_frame [OF assms])

lemma sbitsPutVar_length_store: "same_store s (sbitsPutVar_length s key len)"
  by (simp add: same_store_def same_data_def sbitsPutVar_length_def Let_def)

lemma sbitsPutVar_loop_store:
  "sbitsPutVar_loop s key variableData len amtWritten = Some s' \<Longrightarrow> same_store s s'"
proof (induction s key variableData len amtWritten rule: sbitsPutVar_loop.induct)
  case (1 s key variableData len amtWritten)
  let ?a = "min (pageSize s - currentVarLoc s mod pageSize s) len"
  let ?s1 = "s\<lparr>varwbuf := copy_bytes (varwbuf s) (currentVarLoc s mod pageSize s)
                                   variableData amtWritten ?a\<rparr>"
  let ?s2 = "?s1\<lparr>currentVarLoc := currentVarLoc ?s1 + ?a\<rparr>"
  note eq = "1.prems" [unfolded sbitsPutVar_loop.simps [of s key variableData len amtWritten]]
  have s2: "same_store s ?s2"
    by (simp add: same_store_def same_data_def)
  show ?case
  proof (cases "0 < len")
    case False
    with eq show ?thesis by simp
  next
    case True
    with eq have ps: "pageSize s \<noteq> 0"
      by (auto split: if_splits)
    show ?thesis
    proof (cases "currentVarLoc ?s2 mod pageSize ?s2 = 0")
      case z: True
      with eq True ps obtain s3 where s3: "sbitsPutVar_nextPage ?s2 key = Some s3"
        and rec: "sbitsPutVar_loop s3 key variableData (len - ?a) (amtWritten + ?a) = Some s'"
        by (auto simp: Let_def split: option.splits)
      have "same_store s3 s'"
        using True ps z s3 rec
        by (intro "1.IH"(1) [of ?a ?s1 ?s2 s3]) simp_all
      with sbitsPutVar_nextPage_store [OF s3] s2 show ?thesis
        by (blast intro: same_store_trans)
    next
      case nz: False
      with eq True ps
      have rec: "sbitsPutVar_loop ?s2 key variableData (len - ?a) (amtWritten + ?a) = Some s'"
        by (auto simp: Let_def)
      have "same_store ?s2 s'"
        using True ps nz rec
        by (intro "1.IH"(2) [of ?a ?s1 ?s2]) simp_all
      with s2 show ?thesis
        by (blast intro: same_store_trans)
    qed
  qed
qed

text \<open>A put appends to the write buffer, after writing the buffer when it was full.\<close>

lemma sbitsPut_data:
  assumes "sbitsPut x s key data = Some (s', r)"
  shows "(pg_count (wbuf s) < maxRecordsPerPage s \<and> same_data s s'
          \<and> pg_count (wbuf s') = pg_count (wbuf s) + 1
          \<and> (\<forall>i<pg_count (wbuf s). pg_recs (wbuf s') i = pg_recs (wbuf s) i)
          \<and> r_key (pg_recs (wbuf s') (pg_count (wbuf s))) = key
          \<and> r_data (pg_recs (wbuf s') (pg_count (wbuf s))) = data)
       \<or> (maxRecordsPerPage s \<le> pg_count (wbuf s) \<and> same_data (fst (writePage s)) s'
          \<and> pg_count (wbuf s') = 1 \<and> r_key (pg_recs (wbuf s') 0) = key
          \<and> r_data (pg_recs (wbuf s') 0) = data)"
proof (cases "pg_count (wbuf s) < maxRecordsPerPage s")
  case True
  with assms obtain s2 where s2: "sbitsPut_record s (pg_count (wbuf s)) key data = Some s2"
    and s': "s' = sbitsPut_header s2 (pg_count (wbuf s)) key data"
    by (auto simp: sbitsPut_room split: option.splits)
  have "same_data s s'"
    by (simp add: same_data_def s' sbitsPut_record_frame [OF s2])
  moreover have "pg_count (wbuf s') = pg_count (wbuf s) + 1"
    "r_key (pg_recs (wbuf s') (pg_count (wbuf s))) = key"
    "r_data (pg_recs (wbuf s') (pg_count (wbuf s))) = data"
    using sbitsPut_record_effect(1-3) [OF s2] by (simp_all add: s' sbitsPut_header_wbuf)
  moreover have "pg_recs (wbuf s') i = pg_recs (wbuf s) i" if "i < pg_count (wbuf s)" for i
    using sbitsPut_record_effect(4) [OF s2, of i] that by (simp add: s' sbitsPut_header_wbuf)
  ultimately show ?thesis
    using True by simp
next
  case False
  then have full: "maxRecordsPerPage s \<le> pg_count (wbuf s)" by simp
  with assms obtain s1 s2 where s1: "sbitsPut_full x s = Some s1"
    and s2: "sbitsPut_record s1 0 key data = Some s2"
    and s': "s' = sbitsPut_header s2 0 key data"
    by (auto simp: sbitsPut_full_case split: option.splits)
  have "same_data (fst (writePage s)) s'"
    by (simp add: same_data_def s' sbitsPut_record_frame [OF s2] sbitsPut_full_effect [OF s1])
  moreover have "pg_count (wbuf s') = 1" "r_key (pg_recs (wbuf s') 0) = key"
    "r_data (pg_recs (wbuf s') 0) = data"
    using sbitsPut_record_effect(1-3) [OF s2]
    by (simp_all add: s' sbitsPut_header_wbuf sbitsPut_full_effect(1) [OF s1] init_page_def)
  ultimately show ?thesis
    using full by simp
qed

text \<open>A flush writes the write buffer and leaves an empty one.\<close>

lemma sbitsFlush_data:
  assumes "sbitsFlush s = Some (s', r)"
  shows "same_data (fst (writePage s)) s'" "pg_count (wbuf s') = 0"
proof -
  let ?s4 = "initBufferPage (sbitsFlush_index (indexPage (fst (writePage s))
                (snd (writePage s)))) DATA_WRITE_BUFFER"
  have d4: "same_data (fst (writePage s)) ?s4"
    by (simp add: same_data_def)
  have c4: "pg_count (wbuf ?s4) = 0"
    by (simp add: init_page_def)
  from assms consider (plain) "s' = ?s4"
    | (var) v where "writeVariablePage ?s4 = Some v" "s' = fst v"
    by (auto simp: sbitsFlush_def Let_def split: if_splits option.splits
        simp del: initBufferPage.simps)
  then have "same_store ?s4 s'"
  proof cases
    case plain
    then show ?thesis by simp
  next
    case var
    show ?thesis
      unfolding var(2)
      by (simp add: same_store_def same_data_def writeVariablePage_frame [OF var(1)]
          del: initBufferPage.simps)
  qed
  with d4 c4 show "same_data (fst (writePage s)) s'" "pg_count (wbuf s') = 0"
    by (auto simp: same_store_def intro: same_data_trans)
qed

text \<open>Every call is: nothing for the data storage, or a put, or a flush.\<close>

lemma sbitsPutVar_cases:
  assumes "sbitsPutVar x s key data blob len = Some (s', r)"
  shows "same_store s s'
       \<or> (\<exists>t u q. same_store s t \<and> sbitsPut x t key data = Some (u, q) \<and> same_store u s')"
proof (cases "usingVData s")
  case False
  with assms show ?thesis by (simp add: sbitsPutVar_def)
next
  case True
  show ?thesis
  proof (cases blob)
    case None
    with True assms have "sbitsPut x (s\<lparr>recordHasVarData := 0\<rparr>) key data = Some (s', r)"
      by (simp add: sbitsPutVar_def)
    moreover have "same_store s (s\<lparr>recordHasVarData := 0\<rparr>)"
      by (simp add: same_store_def same_data_def)
    ultimately show ?thesis
      using same_store_refl by blast
  next
    case (Some b)
    with True assms obtain s1 s2 q where a: "sbitsPutVar_advance s = Some s1"
      and p: "sbitsPut x (s1\<lparr>recordHasVarData := 1\<rparr>) key data = Some (s2, q)"
      by (auto simp: sbitsPutVar_def split: option.splits)
    have t: "same_store s (s1\<lparr>recordHasVarData := 1\<rparr>)"
      using sbitsPutVar_advance_store [OF a] by (simp add: same_store_def same_data_def)
    let ?s5 = "sbitsPutVar_length s2 key len"
    have "same_store s2 s'"
    proof (cases "q \<noteq> 0")
      case True
      with assms \<open>usingVData s\<close> Some a p show ?thesis
        by (simp add: sbitsPutVar_def)
    next
      case False
      with assms \<open>usingVData s\<close> Some a p obtain s6 where
        s6: "(if currentVarLoc ?s5 mod pageSize ?s5 = 0
              then sbitsPutVar_nextPage ?s5 key else Some ?s5) = Some s6"
        and s7: "sbitsPutVar_loop s6 key b len 0 = Some s'"
        by (auto simp: sbitsPutVar_def Let_def split: option.splits)
      from s6 have "same_store ?s5 s6"
        by (auto split: if_splits dest: sbitsPutVar_nextPage_store)
      with sbitsPutVar_length_store [of s2 key len] sbitsPutVar_loop_store [OF s7]
      show ?thesis
        by (blast intro: same_store_trans)
    qed
    with t p show ?thesis
      by blast
  qed
qed

lemma do_call_cases:
  assumes "do_call x s c = Some s'"
  obtains (same) "same_store s s'"
    | (put) t u key data q where "same_store s t" "sbitsPut x t key data = Some (u, q)"
        "same_store u s'" "call_keys [c] = [key]"
    | (flush) q where "sbitsFlush s = Some (s', q)"
proof (cases c)
  case (Put key data)
  with assms obtain q where p: "sbitsPut x s key data = Some (s', q)"
    by auto
  show ?thesis
    by (rule put [OF same_store_refl p same_store_refl]) (simp add: Put)
next
  case (PutVar key data blob len)
  with assms obtain q where "sbitsPutVar x s key data blob len = Some (s', q)"
    by auto
  from sbitsPutVar_cases [OF this] PutVar show ?thesis
    by (auto intro: same put)
next
  case Flush
  with assms show ?thesis
    by (auto intro: flush)
next
  case (Get key)
  with assms show ?thesis
    by (auto intro: same dest: sbitsGet_store)
next
  case (GetVar key)
  with assms show ?thesis
    by (auto intro: same dest: sbitsGetVar_store)
qed

lemma call_keys_Cons: "call_keys (c # cs) = call_keys [c] @ call_keys cs"
  by (cases c) simp_all

subsection \<open>The order of the keys\<close>

lemma page_sorted_id [simp]: "page_sorted le (p\<lparr>pg_id := n\<rparr>) = page_sorted le p"
  by (simp add: page_sorted_def)

lemma keys_below_id [simp]:
  "keys_below le (p\<lparr>pg_id := n\<rparr>) q = keys_below le p q"
  "keys_below le p (q\<lparr>pg_id := n\<rparr>) = keys_below le p q"
  by (simp_all add: keys_below_def)

lemma keys_below_empty: "pg_count q = 0 \<Longrightarrow> keys_below le p q"
  by (simp add: keys_below_def)

lemma key_order_mono:
  assumes "key_order le K s" and "K \<subseteq> K'"
  shows "key_order le K' s"
proof -
  from assms(1) obtain f where f: "dataFile s = Some f"
    and w: "page_sorted le (wbuf s)" "\<forall>i<pg_count (wbuf s). r_key (pg_recs (wbuf s) i) \<in> K"
    and p: "\<And>a p. f a = Some p \<Longrightarrow>
           pg_id p < nextPageId s \<and> page_sorted le p \<and> keys_below le p (wbuf s) \<and>
           (\<forall>i<pg_count p. r_key (pg_recs p i) \<in> K) \<and>
           (\<forall>b q. f b = Some q \<longrightarrow> pg_id p < pg_id q \<longrightarrow> keys_below le p q)"
    unfolding key_order_def by blast
  show ?thesis
    unfolding key_order_def
  proof (intro conjI exI [of _ f] allI impI)
    show "page_sorted le (wbuf s)" by (rule w)
    show "\<And>i. i < pg_count (wbuf s) \<Longrightarrow> r_key (pg_recs (wbuf s) i) \<in> K'"
      using w(2) assms(2) by blast
    show "dataFile s = Some f" by (rule f)
    fix a p assume a: "f a = Some p"
    show "pg_id p < nextPageId s" "page_sorted le p" "keys_below le p (wbuf s)"
      using p [OF a] by simp_all
    show "\<And>i. i < pg_count p \<Longrightarrow> r_key (pg_recs p i) \<in> K'"
      using p [OF a] assms(2) by blast
    show "\<And>b q. f b = Some q \<Longrightarrow> pg_id p < pg_id q \<Longrightarrow> keys_below le p q"
      using p [OF a] by blast
  qed
qed

lemma key_order_store:
  assumes "key_order le K s" and "same_store s t"
  shows "key_order le K t"
  using assms by (simp add: key_order_def same_store_def same_data_def)

text \<open>A record is appended to the write buffer, with a key that follows the keys of \<open>K\<close>.\<close>

lemma key_order_append:
  assumes inv: "key_order le K s" and d: "same_data s u"
    and c: "pg_count (wbuf u) = pg_count (wbuf s) + 1"
    and old: "\<forall>i<pg_count (wbuf s). pg_recs (wbuf u) i = pg_recs (wbuf s) i"
    and new: "r_key (pg_recs (wbuf u) (pg_count (wbuf s))) = k"
    and k: "\<forall>a\<in>K. le a k"
  shows "key_order le (insert k K) u"
proof -
  from inv obtain f where f: "dataFile s = Some f"
    and w: "page_sorted le (wbuf s)" "\<forall>i<pg_count (wbuf s). r_key (pg_recs (wbuf s) i) \<in> K"
    and p: "\<And>a p. f a = Some p \<Longrightarrow>
           pg_id p < nextPageId s \<and> page_sorted le p \<and> keys_below le p (wbuf s) \<and>
           (\<forall>i<pg_count p. r_key (pg_recs p i) \<in> K) \<and>
           (\<forall>b q. f b = Some q \<longrightarrow> pg_id p < pg_id q \<longrightarrow> keys_below le p q)"
    unfolding key_order_def by blast
  have key: "r_key (pg_recs (wbuf u) i) = (if i = pg_count (wbuf s) then k
      else r_key (pg_recs (wbuf s) i))" if "i < pg_count (wbuf u)" for i
    using that c old new by (cases "i = pg_count (wbuf s)") auto
  have fu: "dataFile u = Some f" "nextPageId u = nextPageId s"
    using d f by (simp_all add: same_data_def)
  have below: "keys_below le q (wbuf u)"
    if "keys_below le q (wbuf s)" "\<forall>i<pg_count q. r_key (pg_recs q i) \<in> K" for q
    unfolding keys_below_def
  proof (intro allI impI)
    fix i j assume i: "i < pg_count q" and j: "j < pg_count (wbuf u)"
    show "le (r_key (pg_recs q i)) (r_key (pg_recs (wbuf u) j))"
    proof (cases "j = pg_count (wbuf s)")
      case True
      with key [OF j] that(2) i k show ?thesis by simp
    next
      case False
      with j c have "j < pg_count (wbuf s)" by simp
      with that(1) i key [OF j] False show ?thesis
        by (simp add: keys_below_def)
    qed
  qed
  have sorted: "page_sorted le (wbuf u)"
    unfolding page_sorted_def
  proof (intro allI impI)
    fix j i assume j: "j < pg_count (wbuf u)" and i: "i < j"
    then have iu: "i < pg_count (wbuf u)" and ib: "i < pg_count (wbuf s)"
      using c by simp_all
    show "le (r_key (pg_recs (wbuf u) i)) (r_key (pg_recs (wbuf u) j))"
    proof (cases "j = pg_count (wbuf s)")
      case True
      with key [OF j] key [OF iu] i w(2) ib k show ?thesis by simp
    next
      case False
      with j c have "j < pg_count (wbuf s)" by simp
      with w(1) i key [OF j] key [OF iu] show ?thesis
        by (simp add: page_sorted_def)
    qed
  qed
  show ?thesis
    unfolding key_order_def
  proof (intro conjI exI [of _ f] allI impI)
    show "page_sorted le (wbuf u)" by (rule sorted)
    show "\<And>i. i < pg_count (wbuf u) \<Longrightarrow> r_key (pg_recs (wbuf u) i) \<in> insert k K"
      using key w(2) c by (auto simp: less_Suc_eq)
    show "dataFile u = Some f" by (rule fu)
    fix a q assume a: "f a = Some q"
    show "pg_id q < nextPageId u" "page_sorted le q"
      using p [OF a] fu by simp_all
    show "keys_below le q (wbuf u)"
      using p [OF a] by (intro below) simp_all
    show "\<And>i. i < pg_count q \<Longrightarrow> r_key (pg_recs q i) \<in> insert k K"
      using p [OF a] by simp
    show "\<And>b q'. f b = Some q' \<Longrightarrow> pg_id q < pg_id q' \<Longrightarrow> keys_below le q q'"
      using p [OF a] by blast
  qed
qed

text \<open>The write buffer is written under the next logical id and an empty one is left.\<close>

lemma key_order_write:
  assumes inv: "key_order le K s" and d: "same_data (fst (writePage s)) u"
    and c: "pg_count (wbuf u) = 0"
  shows "key_order le K u"
proof -
  from inv obtain f where f: "dataFile s = Some f"
    and w: "page_sorted le (wbuf s)" "\<forall>i<pg_count (wbuf s). r_key (pg_recs (wbuf s) i) \<in> K"
    and p: "\<And>a p. f a = Some p \<Longrightarrow>
           pg_id p < nextPageId s \<and> page_sorted le p \<and> keys_below le p (wbuf s) \<and>
           (\<forall>i<pg_count p. r_key (pg_recs p i) \<in> K) \<and>
           (\<forall>b q. f b = Some q \<longrightarrow> pg_id p < pg_id q \<longrightarrow> keys_below le p q)"
    unfolding key_order_def by blast
  let ?n = "(wbuf s)\<lparr>pg_id := nextPageId s\<rparr>"
  let ?g = "f(writePage_pos s \<mapsto> ?n)"
  have fu: "dataFile u = Some ?g" "nextPageId u = nextPageId s + 1"
    using d writePage_dataFile [OF f] by (simp_all add: same_data_def writePage_nextPageId f)
  have cases: "q = ?n \<or> (\<exists>b. f b = Some q)" if "?g a = Some q" for a q
    using that by (auto split: if_splits)
  have n: "pg_id ?n = nextPageId s" "pg_count ?n = pg_count (wbuf s)"
    "pg_recs ?n = pg_recs (wbuf s)"
    by simp_all
  show ?thesis
    unfolding key_order_def
  proof (intro conjI exI [of _ ?g] allI impI)
    show "page_sorted le (wbuf u)" "\<And>i. i < pg_count (wbuf u) \<Longrightarrow> r_key (pg_recs (wbuf u) i) \<in> K"
      using c by (simp_all add: page_sorted_def)
    show "dataFile u = Some ?g" by (rule fu)
    fix a q assume a: "?g a = Some q"
    from cases [OF a] show "pg_id q < nextPageId u"
      using p fu(2) by (auto simp: less_Suc_eq)
    from cases [OF a] show "page_sorted le q"
      using p w(1) by auto
    show "keys_below le q (wbuf u)"
      using c by (rule keys_below_empty)
    from cases [OF a] show "\<And>i. i < pg_count q \<Longrightarrow> r_key (pg_recs q i) \<in> K"
      using p w(2) by auto
    fix b q' assume b: "?g b = Some q'" and lt: "pg_id q < pg_id q'"
    from cases [OF a] cases [OF b] lt p show "keys_below le q q'"
      by (elim disjE exE) (simp, simp, fastforce, blast)
  qed
qed

lemma key_order_put:
  assumes inv: "key_order le K s" and put: "sbitsPut x s key data = Some (s', r)"
    and k: "\<forall>a\<in>K. le a key"
  shows "key_order le (insert key K) s'"
proof -
  from sbitsPut_data [OF put] consider
    (room) "same_data s s'" "pg_count (wbuf s') = pg_count (wbuf s) + 1"
      "\<forall>i<pg_count (wbuf s). pg_recs (wbuf s') i = pg_recs (wbuf s) i"
      "r_key (pg_recs (wbuf s') (pg_count (wbuf s))) = key"
    | (full) "same_data (fst (writePage s)) s'" "pg_count (wbuf s') = 1"
      "r_key (pg_recs (wbuf s') 0) = key"
    by blast
  then show ?thesis
  proof cases
    case room
    from key_order_append [OF inv room k] show ?thesis .
  next
    case full
    let ?u = "s'\<lparr>wbuf := (wbuf s')\<lparr>pg_count := 0\<rparr>\<rparr>"
    have "same_data (fst (writePage s)) ?u"
      using full(1) by (simp add: same_data_def)
    then have u: "key_order le K ?u"
      by (intro key_order_write [OF inv]) simp_all
    show ?thesis
      by (rule key_order_append [OF u _ _ _ _ k])
         (simp_all add: same_data_def full)
  qed
qed

lemma key_order_flush:
  assumes "key_order le K s" and "sbitsFlush s = Some (s', r)"
  shows "key_order le K s'"
  using key_order_write [OF assms(1) sbitsFlush_data [OF assms(2)]] .

lemma key_order_call:
  assumes inv: "key_order le K s" and c: "do_call x s c = Some s'"
    and k: "\<forall>a\<in>K. \<forall>b\<in>set (call_keys [c]). le a b"
  shows "key_order le (K \<union> set (call_keys [c])) s'"
  using c
proof (cases rule: do_call_cases)
  case same
  from key_order_store [OF inv same] show ?thesis
    by (rule key_order_mono) simp
next
  case (put t u key data q)
  from k put(4) have "\<forall>a\<in>K. le a key" by simp
  from key_order_put [OF key_order_store [OF inv put(1)] put(2) this]
  have "key_order le (insert key K) s'"
    by (rule key_order_store) (rule put(3))
  with put(4) show ?thesis by simp
next
  case (flush q)
  from key_order_flush [OF inv flush] show ?thesis
    by (rule key_order_mono) simp
qed

lemma key_order_run:
  "run_calls x s cs = Some s' \<Longrightarrow> key_order le K s \<Longrightarrow> sorted_wrt le (call_keys cs)
     \<Longrightarrow> \<forall>a\<in>K. \<forall>b\<in>set (call_keys cs). le a b
     \<Longrightarrow> key_order le (K \<union> set (call_keys cs)) s'"
proof (induction cs arbitrary: s K)
  case Nil
  then show ?case by simp
next
  case (Cons c cs)
  from Cons.prems(1) obtain s1 where c: "do_call x s c = Some s1"
    and r: "run_calls x s1 cs = Some s'"
    by (auto split: option.splits)
  note ck = call_keys_Cons [of c cs]
  from Cons.prems(3) have s: "sorted_wrt le (call_keys [c])" "sorted_wrt le (call_keys cs)"
    "\<forall>a\<in>set (call_keys [c]). \<forall>b\<in>set (call_keys cs). le a b"
    by (simp_all add: ck sorted_wrt_append)
  from Cons.prems(4) have k: "\<forall>a\<in>K. \<forall>b\<in>set (call_keys [c]). le a b"
    "\<forall>a\<in>K. \<forall>b\<in>set (call_keys cs). le a b"
    by (simp_all add: ck)
  have 1: "key_order le (K \<union> set (call_keys [c])) s1"
    by (rule key_order_call [OF Cons.prems(2) c k(1)])
  have "key_order le (K \<union> set (call_keys [c]) \<union> set (call_keys cs)) s'"
    using s(3) k(2) by (intro Cons.IH [OF r 1 s(2)]) blast
  then show ?case
    by (simp add: ck Un_assoc)
qed

subsection \<open>The store that \<^verbatim>\<open>sbitsInit\<close> sets up\<close>

lemma sbitsInit_files_fresh:
  assumes "sbitsInit_files t = Some (s, 0)"
  shows "nextPageId s = 0 \<and> nextPageWriteId s = 0 \<and> startDataPage s = 0
       \<and> firstDataPage s = 0 \<and> firstDataPageId s = 0 \<and> erasedEndPage s = 0
       \<and> dataFile s = Some Map.empty \<and> wrappedMemory s = wrappedMemory t
       \<and> wbuf s = wbuf t \<and> bufferedPageId s = bufferedPageId t
       \<and> eraseSizeInPages s = eraseSizeInPages t"
proof -
  let ?P = "\<lambda>u. nextPageId u = 0 \<and> nextPageWriteId u = 0 \<and> startDataPage u = 0
       \<and> firstDataPage u = 0 \<and> firstDataPageId u = 0 \<and> erasedEndPage u = 0
       \<and> dataFile u = Some Map.empty \<and> wrappedMemory u = wrappedMemory t
       \<and> wbuf u = wbuf t \<and> bufferedPageId u = bufferedPageId t
       \<and> eraseSizeInPages u = eraseSizeInPages t"
  let ?s9 = "fst (sbitsInitData (t\<lparr>spl := []\<rparr>))"
  have s9: "?P ?s9"
    by (simp add: sbitsInitData_def)
  have i: "?P u'" if "sbitsInitIndex u = Some (u', r)" "?P u" for u u' r
    using that by (auto simp: sbitsInitIndex_def Let_def split: if_splits)
  have v: "?P (fst (sbitsInitVarData u))" if "?P u" for u
    using that by (simp add: sbitsInitVarData_def Let_def)
  have r: "?P (resetStats u)" if "?P u" for u
    using that by (simp add: resetStats_def)
  from assms obtain s10 r10 where
    idx: "(if usingIndex ?s9 then
             if bufferSizeInBlocks ?s9 < 4 then Some (?s9\<lparr>usingIndex := False\<rparr>, 0)
             else sbitsInitIndex ?s9
           else Some (?s9, 0)) = Some (s10, r10)"
    and fin: "(if r10 \<noteq> 0 then Some (s10, r10)
               else if usingVData s10 then
                 if bufferSizeInBlocks s10 < 4 + (if usingIndex s10 then 2 else 0)
                 then Some (s10\<lparr>usingVData := False\<rparr>, 0)
                 else Some (sbitsInitVarData s10)
               else Some (resetStats s10, 0)) = Some (s, 0)"
    unfolding sbitsInit_files_def Let_def
    by (simp split: option.splits prod.splits)
  have s10: "?P s10"
  proof (cases "usingIndex ?s9 \<and> \<not> bufferSizeInBlocks ?s9 < 4")
    case True
    with idx have "sbitsInitIndex ?s9 = Some (s10, r10)" by simp
    from i [OF this s9] show ?thesis .
  next
    case False
    with idx have "s10 = ?s9\<lparr>usingIndex := False\<rparr> \<or> s10 = ?s9"
      by (auto split: if_splits)
    with s9 show ?thesis by auto
  qed
  from fin have "s = s10\<lparr>usingVData := False\<rparr> \<or> s = fst (sbitsInitVarData s10)
                \<or> s = resetStats s10"
    by (auto split: if_splits)
  then show ?thesis
    using s10 v [OF s10] r [OF s10] by auto
qed

lemma sbitsInit_fresh:
  assumes "sbitsInit s0 e = Some (s, 0)"
  shows "nextPageId s = 0" "nextPageWriteId s = 0" "startDataPage s = 0"
    "firstDataPage s = 0" "firstDataPageId s = 0" "erasedEndPage s = 0"
    "dataFile s = Some Map.empty" "wrappedMemory s = 0" "pg_count (wbuf s) = 0"
    "bufferedPageId s = -1" "eraseSizeInPages s = eraseSizeInPages s0"
proof -
  from assms obtain s7 where s7: "sbitsInit_sizes s0 e = Some s7"
    and f: "sbitsInit_files s7 = Some (s, 0)"
    by (auto simp: sbitsInit_def Let_def split: if_splits option.splits)
  from s7 have "wrappedMemory s7 = 0 \<and> pg_count (wbuf s7) = 0 \<and> bufferedPageId s7 = -1
      \<and> eraseSizeInPages s7 = eraseSizeInPages s0"
    by (auto simp: sbitsInit_sizes_def Let_def init_page_def split: if_splits)
  with sbitsInit_files_fresh [OF f]
  show "nextPageId s = 0" "nextPageWriteId s = 0" "startDataPage s = 0"
    "firstDataPage s = 0" "firstDataPageId s = 0" "erasedEndPage s = 0"
    "dataFile s = Some Map.empty" "wrappedMemory s = 0" "pg_count (wbuf s) = 0"
    "bufferedPageId s = -1" "eraseSizeInPages s = eraseSizeInPages s0"
    by simp_all
qed

lemma key_order_init:
  assumes "sbitsInit s0 e = Some (s, 0)"
  shows "key_order le {} s"
  using sbitsInit_fresh [OF assms] by (simp add: key_order_def page_sorted_def)

subsection \<open>Where the logical pages are\<close>

lemma mod_differs:
  fixes l n m :: nat
  assumes "l < n" and "n < l + m"
  shows "l mod m \<noteq> n mod m"
proof
  assume "l mod m = n mod m"
  then have "m dvd n - l"
    using assms(1) by (metis mod_eq_dvd_iff_nat less_imp_le)
  moreover have "0 < n - l" "n - l < m"
    using assms by simp_all
  ultimately show False
    by (simp add: nat_dvd_not_less)
qed

lemma placed_data:
  assumes "placed s" and "same_data s t"
  shows "placed t"
  using assms by (simp add: placed_def same_data_def)

lemma placed_writePage:
  assumes "placed s"
  shows "placed (fst (writePage s))"
proof -
  let ?N = "endDataPage s"
  from assms obtain f where f: "dataFile s = Some f"
    and n: "0 < ?N" "startDataPage s = 0" "nextPageWriteId s \<le> ?N"
      "nextPageWriteId s mod ?N = nextPageId s mod ?N"
    and p: "\<And>l. l < nextPageId s \<Longrightarrow> nextPageId s \<le> l + ?N \<Longrightarrow>
        \<exists>p. f (l mod ?N) = Some p \<and> pg_id p = l"
    unfolding placed_def by blast
  let ?n = "(wbuf s)\<lparr>pg_id := nextPageId s\<rparr>"
  have pos: "writePage_pos s = nextPageId s mod ?N"
    using n by (cases "nextPageWriteId s = ?N") (auto simp: writePage_pos_def)
  have g: "dataFile (fst (writePage s)) = Some (f(nextPageId s mod ?N \<mapsto> ?n))"
    using writePage_dataFile [OF f] by (simp add: pos)
  have w: "nextPageWriteId (fst (writePage s)) = nextPageId s mod ?N + 1"
    using writePage_nextPageWriteId [of s] f by (simp add: pos)
  have i: "nextPageId (fst (writePage s)) = nextPageId s + 1"
    by (simp add: writePage_nextPageId f)
  have lt: "nextPageId s mod ?N < ?N"
    using n(1) by simp
  show ?thesis
    unfolding placed_def
  proof (intro conjI exI [of _ "f(nextPageId s mod ?N \<mapsto> ?n)"] allI impI)
    show "0 < endDataPage (fst (writePage s))" "startDataPage (fst (writePage s)) = 0"
      using n by simp_all
    show "nextPageWriteId (fst (writePage s)) \<le> endDataPage (fst (writePage s))"
      using lt by (simp add: w)
    show "nextPageWriteId (fst (writePage s)) mod endDataPage (fst (writePage s))
        = nextPageId (fst (writePage s)) mod endDataPage (fst (writePage s))"
      by (simp add: w i mod_Suc_eq)
    show "dataFile (fst (writePage s)) = Some (f(nextPageId s mod ?N \<mapsto> ?n))"
      by (rule g)
    fix l
    assume l: "l < nextPageId (fst (writePage s))"
      and r: "nextPageId (fst (writePage s)) \<le> l + endDataPage (fst (writePage s))"
    show "\<exists>p. (f(nextPageId s mod ?N \<mapsto> ?n)) (l mod endDataPage (fst (writePage s)))
              = Some p \<and> pg_id p = l"
    proof (cases "l = nextPageId s")
      case True
      then show ?thesis by simp
    next
      case False
      with l r have o: "l < nextPageId s" "nextPageId s < l + ?N"
        by (simp_all add: i)
      from mod_differs [OF o] p [of l] o show ?thesis
        by simp
    qed
  qed
qed

lemma placed_call:
  assumes inv: "placed s" and c: "do_call x s c = Some s'"
  shows "placed s'"
  using c
proof (cases rule: do_call_cases)
  case same
  with inv show ?thesis
    by (auto simp: same_store_def intro: placed_data)
next
  case (put t u key data q)
  from inv put(1) have t: "placed t"
    by (auto simp: same_store_def intro: placed_data)
  from sbitsPut_data [OF put(2)] have "same_data t u \<or> same_data (fst (writePage t)) u"
    by blast
  with t placed_writePage [OF t] have "placed u"
    by (auto intro: placed_data)
  with put(3) show ?thesis
    by (auto simp: same_store_def intro: placed_data)
next
  case (flush q)
  from placed_writePage [OF inv] sbitsFlush_data(1) [OF flush] show ?thesis
    by (rule placed_data)
qed

lemma placed_run:
  "run_calls x s cs = Some s' \<Longrightarrow> placed s \<Longrightarrow> placed s'"
proof (induction cs arbitrary: s)
  case Nil
  then show ?case by simp
next
  case (Cons c cs)
  from Cons.prems(1) obtain s1 where c: "do_call x s c = Some s1"
    and r: "run_calls x s1 cs = Some s'"
    by (auto split: option.splits)
  from Cons.IH [OF r placed_call [OF Cons.prems(2) c]] show ?case .
qed

lemma placed_init:
  assumes "sbitsInit s0 e = Some (s, 0)" and "0 < endDataPage s"
  shows "placed s"
  using sbitsInit_fresh [OF assms(1)] assms(2) by (simp add: placed_def)

lemma same_data_run:
  "run_calls x s cs = Some s' \<Longrightarrow> endDataPage s' = endDataPage s
     \<and> startDataPage s' = startDataPage s \<and> eraseSizeInPages s' = eraseSizeInPages s
     \<and> maxRecordsPerPage s' = maxRecordsPerPage s"
proof (induction cs arbitrary: s)
  case Nil
  then show ?case by simp
next
  case (Cons c cs)
  from Cons.prems(1) obtain s1 where c: "do_call x s c = Some s1"
    and r: "run_calls x s1 cs = Some s'"
    by (auto split: option.splits)
  have "endDataPage s1 = endDataPage s \<and> startDataPage s1 = startDataPage s
      \<and> eraseSizeInPages s1 = eraseSizeInPages s
      \<and> maxRecordsPerPage s1 = maxRecordsPerPage s"
    using c
  proof (cases rule: do_call_cases)
    case same
    then show ?thesis by (simp add: same_store_def same_data_def)
  next
    case (put t u key data q)
    from sbitsPut_data [OF put(2)] have "same_data t u \<or> same_data (fst (writePage t)) u"
      by blast
    with put(1,3) show ?thesis
      by (auto simp: same_store_def same_data_def)
  next
    case (flush q)
    from sbitsFlush_data(1) [OF flush] show ?thesis
      by (simp add: same_data_def)
  qed
  with Cons.IH [OF r] show ?case by simp
qed

section \<open>The claims\<close>

subsection \<open>C4: the data stream wraps\<close>




subsection \<open>C9: variable data is disabled\<close>

text \<open>
  Claim C9. For every key, data, blob and length, \<^verbatim>\<open>sbitsPutVar\<close> on a store without
  variable data returns \<^verbatim>\<open>-1\<close> and leaves the state, hence everything stored, as it was.
\<close>

theorem sbitsPutVar_disabled:
  assumes "\<not> usingVData s"
  shows "sbitsPutVar x s key data variableData len = Some (s, -1)"
  using assms by (simp add: sbitsPutVar_def)

theorem sbitsPutVar_disabled_witness:
  "\<not> usingVData small_store
   \<and> sbitsPutVar demo_ext small_store 5 1 (Some (\<lambda>i. 65)) 3 = Some (small_store, -1)"
proof -
  have h: "\<not> usingVData small_store"
    by (simp add: small_store_facts)
  from sbitsPutVar_disabled [OF h] h show ?thesis
    by simp
qed

subsection \<open>C8: looking up before any insertion\<close>






subsection \<open>C10: every key is accepted\<close>



subsection \<open>C5: a full page\<close>




subsection \<open>C7: the length of a blob is not split\<close>





subsection \<open>C6: a blob that has been reclaimed\<close>

text \<open>
  Claim C6. When \<^verbatim>\<open>sbitsGet\<close> finds the record of the key (it returns 0 and leaves the
  page of the record in the read buffer), the offset of the blob in that record is not
  \<^verbatim>\<open>SBITS_NO_VAR_DATA\<close> and \<^verbatim>\<open>compareKey\<close> puts the key below \<^verbatim>\<open>minVarRecordId\<close>, then
  \<^verbatim>\<open>sbitsGetVar\<close> returns 1 and sets \<^verbatim>\<open>*varData\<close> to \<^verbatim>\<open>NULL\<close>.
\<close>

theorem sbitsGetVar_stale:
  assumes found: "sbitsGet x s key = Some (s1, 0, data)"
    and vdata: "usingVData s1"
    and node: "sbitsSearchNode x s1 (rbuf s1) key 0 = Some recordNum"
    and offset: "r_var (pg_recs (rbuf s1) recordNum) \<noteq> SBITS_NO_VAR_DATA"
    and stale: "compareKey s1 key (minVarRecordId s1) < 0"
  shows "sbitsGetVar x s key = Some (s1, 1, data, VarNull, None)"
  using vdata offset stale by (simp add: sbitsGetVar_def found node Let_def)

lemma stale_store_read:
  "snd (readPage stale_store 0) = 0" "rbuf (fst (readPage stale_store 0)) = stale_page"
  using readPage_miss [of 0 stale_store "Map.empty(0 \<mapsto> stale_page)" stale_page]
  by (simp_all add: stale_store_facts)

lemma stale_store_node:
  "sbitsSearchNode demo_ext (fst (readPage stale_store 0)) stale_page 5 0 = Some 0"
proof -
  have "sbitsSearchNode_loop (fst (readPage stale_store 0)) stale_page 5 0 0 0
      = Some (True, 0)"
    by (rule sbitsSearchNode_loop_hit)
       (simp_all add: stale_page_facts stale_store_facts int32Comparator_small)
  then show ?thesis
    by (simp add: sbitsSearchNode_def Let_def demo_ext_def stale_page_facts
        stale_store_facts cdiv_def to_id_def del: sbitsSearchNode_loop.simps)
qed

lemma stale_store_get:
  "sbitsGet demo_ext stale_store 5 = Some (fst (readPage stale_store 0), 0, Some 50)"
proof -
  have "linearSearch stale_store 5 0 0 0 = Some (fst (readPage stale_store (to_id 0 mod endDataPage stale_store)), 0)"
    by (rule linearSearch_found [where m = 5])
       (simp_all add: stale_store_facts to_id_def stale_store_read sbitsGetMinKey_def
          sbitsGetMaxKey_def stale_page_facts int32Comparator_small)
  then have "linearSearch stale_store 5 0 0 0 = Some (fst (readPage stale_store 0), 0)"
    by (simp add: stale_store_facts to_id_def)
  then show ?thesis
    by (simp add: sbitsGet_def stale_store_facts demo_ext_def to_int32_def
        stale_store_read stale_store_node [unfolded demo_ext_def] stale_page_facts
        ID_MINUS_ONE_def del: linearSearch.simps)
qed

theorem sbitsGetVar_stale_witness:
  "sbitsGet demo_ext stale_store 5 = Some (fst (readPage stale_store 0), 0, Some 50)
   \<and> usingVData (fst (readPage stale_store 0))
   \<and> sbitsSearchNode demo_ext (fst (readPage stale_store 0))
        (rbuf (fst (readPage stale_store 0))) 5 0 = Some 0
   \<and> r_var (pg_recs (rbuf (fst (readPage stale_store 0))) 0) \<noteq> SBITS_NO_VAR_DATA
   \<and> compareKey (fst (readPage stale_store 0)) 5 (minVarRecordId (fst (readPage stale_store 0))) < 0
   \<and> sbitsGetVar demo_ext stale_store 5
        = Some (fst (readPage stale_store 0), 1, Some 50, VarNull, None)"
proof -
  have h: "sbitsGet demo_ext stale_store 5 = Some (fst (readPage stale_store 0), 0, Some 50)"
    "usingVData (fst (readPage stale_store 0))"
    "sbitsSearchNode demo_ext (fst (readPage stale_store 0))
        (rbuf (fst (readPage stale_store 0))) 5 0 = Some 0"
    "r_var (pg_recs (rbuf (fst (readPage stale_store 0))) 0) \<noteq> SBITS_NO_VAR_DATA"
    "compareKey (fst (readPage stale_store 0)) 5 (minVarRecordId (fst (readPage stale_store 0))) < 0"
    by (simp_all add: stale_store_get stale_store_facts stale_store_read stale_store_node
        stale_page_facts SBITS_NO_VAR_DATA_def int32Comparator_small)
  from sbitsGetVar_stale [OF h] h show ?thesis
    by simp
qed

end
